theory Spec2Isabelle
  imports Complex_Main "HOL-Library.Sublist"
begin

section \<open>Python values\<close>

text \<open>
  The values that cross the interfaces of \<^verbatim>\<open>emby/server.py\<close> and
  \<^verbatim>\<open>emby/player.py\<close> are parsed JSON documents and the payload dictionaries
  built for the remote server. Python's \<^verbatim>\<open>None\<close> is \<open>JNull\<close>, \<^verbatim>\<open>False\<close> is
  \<open>JBool False\<close>. A dictionary is an association list read with \<open>map_of\<close>.
\<close>

datatype json =
    JNull
  | JBool bool
  | JNum int
  | JStr string
  | JList "json list"
  | JObj "(string \<times> json) list"

text \<open>Python truthiness, as used by every \<^verbatim>\<open>if not x\<close> and \<^verbatim>\<open>x or y\<close> of the source.\<close>

fun truthy :: "json \<Rightarrow> bool" where
  "truthy JNull = False"
| "truthy (JBool b) = b"
| "truthy (JNum n) = (n \<noteq> 0)"
| "truthy (JStr s) = (s \<noteq> [])"
| "truthy (JList xs) = (xs \<noteq> [])"
| "truthy (JObj kvs) = (kvs \<noteq> [])"

datatype error =
    ValueError string
  | KeyError string
  | AttributeError string

text \<open>\<^verbatim>\<open>s.split(sep)\<close> for a one-character separator: never the empty list.\<close>

primrec py_split :: "char \<Rightarrow> string \<Rightarrow> string list" where
  "py_split sep [] = [[]]"
| "py_split sep (c # cs) =
     (if c = sep then [] # py_split sep cs
      else (case py_split sep cs of
              [] \<Rightarrow> [[c]]
            | w # ws \<Rightarrow> (c # w) # ws))"

text \<open>\<^verbatim>\<open>sep.join(xs)\<close>.\<close>

fun py_join :: "string \<Rightarrow> string list \<Rightarrow> string" where
  "py_join sep [] = []"
| "py_join sep [x] = x"
| "py_join sep (x # y # ys) = x @ sep @ py_join sep (y # ys)"

section \<open>Collaborators that are not among the sources\<close>

text \<open>
  \<^verbatim>\<open>Request.PrepareApiCallHeaders(authToken=t, userId=u, deviceId=d)\<close>: the helper is
  not among the sources, so the headers are the application itself, determined by the
  three arguments the source passes.
\<close>

datatype headers = PrepareApiCallHeaders string string string

text \<open>One call of the transport (\<^verbatim>\<open>Request.GetAsJson\<close>, \<^verbatim>\<open>Request.PostAsJson\<close>,
  \<^verbatim>\<open>Request.Delete\<close>).\<close>

datatype request =
    GetAsJson string headers
  | PostAsJson string headers json
  | Delete string headers

text \<open>
  \<^verbatim>\<open>lib.utils.log(message, level)\<close>. The level is \<open>None\<close> where the source passes
  none (the helper's default, which is not among the sources, applies) and
  \<open>Some LOGWARNING\<close> where the source passes \<^verbatim>\<open>xbmc.LOGWARNING\<close>.
\<close>

datatype loglevel = LOGWARNING

text \<open>What a call leaves behind outside the object: log lines and transport calls, in order.\<close>

datatype effect =
    Log "loglevel option" string
  | Http request

text \<open>
  The authenticator (\<^verbatim>\<open>emby.authenticator.Authenticator\<close>), the transport
  (\<^verbatim>\<open>emby.request.Request\<close>) and two constants of \<^verbatim>\<open>emby.constants\<close> whose values
  the specification does not give are parameters of the model. \<open>'a\<close> is the
  authenticator object; \<open>authAuthenticate\<close> returns its result and the authenticator
  after the attempt.
\<close>

record 'a collaborators =
  EMBY_PROTOCOL :: string
  SETTING_PROVIDER_USER_OPTION_MANUAL :: string
  authWithUsername :: "string \<Rightarrow> string \<Rightarrow> string \<Rightarrow> string \<Rightarrow> 'a"
  authWithUserId :: "string \<Rightarrow> string \<Rightarrow> string \<Rightarrow> string \<Rightarrow> 'a"
  authIsAuthenticated :: "'a \<Rightarrow> bool"
  authAuthenticate :: "'a \<Rightarrow> bool \<times> 'a"
  authAccessToken :: "'a \<Rightarrow> string"
  authUserId :: "'a \<Rightarrow> string"
  transport :: "request \<Rightarrow> json"

text \<open>
  Modelled from the spec: \<^verbatim>\<open>Url.append\<close> and \<^verbatim>\<open>Url.addOptions\<close> of \<^verbatim>\<open>lib.utils\<close> are
  not among the sources. The specification calls the URL builders pure functions of base
  URL, path segments and query options, and gives \<^verbatim>\<open>/Videos/abc123/stream.mkv?static=true\<close>
  as the end of a built URL: each segment is appended after a \<^verbatim>\<open>/\<close>, the options after
  a \<^verbatim>\<open>?\<close> as \<^verbatim>\<open>key=value\<close> pairs joined by \<^verbatim>\<open>&\<close>.
\<close>

definition Url_append :: "string \<Rightarrow> string list \<Rightarrow> string" where
  "Url_append url args = foldl (\<lambda>u a. u @ ''/'' @ a) url args"

definition Url_addOptions :: "string \<Rightarrow> (string \<times> string) list \<Rightarrow> string" where
  "Url_addOptions url options =
     url @ ''?'' @ py_join ''&'' (map (\<lambda>(k, v). k @ ''='' @ v) options)"

text \<open>
  Modelled from the spec: the constants of \<^verbatim>\<open>emby.constants\<close> are not among the
  sources. The specification names the fields of the public-info response (id,
  ServerName, Version, ProductName; no theorem depends on the spelling of a key), the endpoints \<^verbatim>\<open>/Sessions/Playing\<close>,
  \<^verbatim>\<open>/Sessions/Playing/Progress\<close>, \<^verbatim>\<open>/Sessions/Playing/Stopped\<close>, the play method
  DirectStream and the event names TimeUpdate, Pause, Unpause.
\<close>

definition PROPERTY_SYSTEM_INFO_ID :: string where
  "PROPERTY_SYSTEM_INFO_ID = ''Id''"

definition PROPERTY_SYSTEM_INFO_SERVER_NAME :: string where
  "PROPERTY_SYSTEM_INFO_SERVER_NAME = ''ServerName''"

definition PROPERTY_SYSTEM_INFO_VERSION :: string where
  "PROPERTY_SYSTEM_INFO_VERSION = ''Version''"

definition PROPERTY_SYSTEM_INFO_PRODUCT_NAME :: string where
  "PROPERTY_SYSTEM_INFO_PRODUCT_NAME = ''ProductName''"

definition URL_SESSIONS :: string where
  "URL_SESSIONS = ''Sessions''"

definition URL_SESSIONS_PLAYING :: string where
  "URL_SESSIONS_PLAYING = ''Playing''"

definition URL_SESSIONS_PLAYING_PROGRESS :: string where
  "URL_SESSIONS_PLAYING_PROGRESS = ''Progress''"

definition URL_SESSIONS_PLAYING_STOPPED :: string where
  "URL_SESSIONS_PLAYING_STOPPED = ''Stopped''"

definition PLAYING_PLAY_METHOD_DIRECT_STREAM :: string where
  "PLAYING_PLAY_METHOD_DIRECT_STREAM = ''DirectStream''"

definition PLAYING_PROGRESS_EVENT_TIME_UPDATE :: string where
  "PLAYING_PROGRESS_EVENT_TIME_UPDATE = ''TimeUpdate''"

definition PLAYING_PROGRESS_EVENT_PAUSE :: string where
  "PLAYING_PROGRESS_EVENT_PAUSE = ''Pause''"

definition PLAYING_PROGRESS_EVENT_UNPAUSE :: string where
  "PLAYING_PROGRESS_EVENT_UNPAUSE = ''Unpause''"

section \<open>The host's media provider\<close>

text \<open>
  \<^verbatim>\<open>xbmcmediaimport.MediaProvider\<close> as the source reads it: \<^verbatim>\<open>getIdentifier()\<close>,
  \<^verbatim>\<open>getBasePath()\<close> and \<^verbatim>\<open>getSettings()\<close>, which may yield nothing. The settings are
  the four strings \<^verbatim>\<open>Server.__init__\<close> reads with \<^verbatim>\<open>getString\<close>.
\<close>

record provider_settings =
  set_deviceId :: string
  set_user :: string
  set_username :: string
  set_password :: string

record media_provider =
  getIdentifier :: string
  getBasePath :: string
  getSettings :: "provider_settings option"

section \<open>Server.Info\<close>

definition EMBY_SERVER :: string where
  "EMBY_SERVER = ''Emby Server''"

definition JELLYFIN_SERVER :: string where
  "JELLYFIN_SERVER = ''Jellyfin Server''"

text \<open>\<open>'v\<close> is the parsed version, the result of \<^verbatim>\<open>semantic_version.Version\<close>.\<close>

record 'v info =
  info_id :: json
  info_name :: json
  info_version :: 'v
  info_product :: json

text \<open>\<^verbatim>\<open>Server.Info.__init__(id, name, version, product=None)\<close>.\<close>

definition Info_init :: "json \<Rightarrow> json \<Rightarrow> 'v \<Rightarrow> json \<Rightarrow> error + 'v info" where
  "Info_init ident name version product =
     (if \<not> truthy ident then Inl (ValueError ''invalid id'')
      else Inr \<lparr>info_id = ident, info_name = name, info_version = version,
                info_product = (if truthy product then product else JStr EMBY_SERVER)\<rparr>)"

definition isEmbyServer :: "'v info \<Rightarrow> bool" where
  "isEmbyServer i = (info_product i = JStr EMBY_SERVER)"

definition isJellyfinServer :: "'v info \<Rightarrow> bool" where
  "isJellyfinServer i = (info_product i = JStr JELLYFIN_SERVER)"

definition isUnknown :: "'v info \<Rightarrow> bool" where
  "isUnknown i = (\<not> isEmbyServer i \<and> \<not> isJellyfinServer i)"

text \<open>
  \<^verbatim>\<open>Server.Info.fromPublicInfo(response)\<close>. The response is \<open>None\<close> (Python's
  \<^verbatim>\<open>None\<close>) or a dictionary. \<open>Version\<close> is \<^verbatim>\<open>semantic_version.Version\<close>, which is
  not among the sources and may raise. The result is \<open>Inr None\<close> for the returned
  \<^verbatim>\<open>None\<close> and \<open>Inl e\<close> for a raised exception. Python evaluates the arguments of
  \<^verbatim>\<open>Server.Info(...)\<close> before the call, so \<open>Version\<close> runs before the check of the id.
\<close>

definition fromPublicInfo ::
  "(string \<Rightarrow> error + 'v) \<Rightarrow> (string \<times> json) list option \<Rightarrow> error + 'v info option" where
  "fromPublicInfo Version response =
     (case response of
        None \<Rightarrow> Inr None
      | Some r \<Rightarrow>
          if r = [] \<or> map_of r PROPERTY_SYSTEM_INFO_ID = None
               \<or> map_of r PROPERTY_SYSTEM_INFO_SERVER_NAME = None
               \<or> map_of r PROPERTY_SYSTEM_INFO_VERSION = None
          then Inr None
          else
            (case map_of r PROPERTY_SYSTEM_INFO_VERSION of
               Some (JStr v) \<Rightarrow>
                 (let versions = py_split CHR ''.'' v;
                      productName = (case map_of r PROPERTY_SYSTEM_INFO_PRODUCT_NAME of
                                       Some x \<Rightarrow> x | None \<Rightarrow> JNull)
                  in case Version (py_join ''.'' (take 3 versions)) of
                       Inl e \<Rightarrow> Inl e
                     | Inr ver \<Rightarrow>
                         (case Info_init (the (map_of r PROPERTY_SYSTEM_INFO_ID))
                                 (the (map_of r PROPERTY_SYSTEM_INFO_SERVER_NAME)) ver productName of
                            Inl e \<Rightarrow> Inl e
                          | Inr i \<Rightarrow> Inr (Some i)))
             | _ \<Rightarrow> Inl (AttributeError ''split'')))"

section \<open>Server\<close>

record 'a server =
  srv_baseUrl :: string
  srv_url :: string
  srv_id :: string
  srv_devideId :: string
  srv_authenticator :: 'a

text \<open>\<^verbatim>\<open>Server.__init__(provider)\<close>; \<open>None\<close> is a provider that is \<^verbatim>\<open>None\<close>.\<close>

definition Server_init :: "'a collaborators \<Rightarrow> media_provider option \<Rightarrow> error + 'a server" where
  "Server_init c provider =
     (case provider of
        None \<Rightarrow> Inl (ValueError ''Invalid provider'')
      | Some p \<Rightarrow>
          (let baseUrl = getBasePath p;
               url = Url_append baseUrl [EMBY_PROTOCOL c]
           in case getSettings p of
                None \<Rightarrow> Inl (ValueError ''Invalid provider without settings'')
              | Some st \<Rightarrow>
                  Inr \<lparr>srv_baseUrl = baseUrl, srv_url = url, srv_id = getIdentifier p,
                       srv_devideId = set_deviceId st,
                       srv_authenticator =
                         (if set_user st = SETTING_PROVIDER_USER_OPTION_MANUAL c
                          then authWithUsername c url (set_deviceId st) (set_username st) (set_password st)
                          else authWithUserId c url (set_deviceId st) (set_user st) (set_password st))\<rparr>))"

text \<open>\<^verbatim>\<open>Authenticate\<close>: \<^verbatim>\<open>IsAuthenticated() or Authenticate()\<close>; the second call is made
  only when the first is false, and it may change the authenticator.\<close>

definition Authenticate :: "'a collaborators \<Rightarrow> 'a server \<Rightarrow> bool \<times> 'a server" where
  "Authenticate c s =
     (if authIsAuthenticated c (srv_authenticator s) then (True, s)
      else (let (ok, a) = authAuthenticate c (srv_authenticator s)
            in (ok, s\<lparr>srv_authenticator := a\<rparr>)))"

definition AccessToken :: "'a collaborators \<Rightarrow> 'a server \<Rightarrow> string" where
  "AccessToken c s = authAccessToken c (srv_authenticator s)"

definition UserId :: "'a collaborators \<Rightarrow> 'a server \<Rightarrow> string" where
  "UserId c s = authUserId c (srv_authenticator s)"

text \<open>\<^verbatim>\<open>_authenticate\<close>: the result, the log line on failure, the server afterwards.\<close>

definition authenticate_private :: "'a collaborators \<Rightarrow> 'a server \<Rightarrow> bool \<times> effect list \<times> 'a server" where
  "authenticate_private c s =
     (let (ok, s') = Authenticate c s
      in if \<not> ok
         then (False, [Log None (''user authentication failed on media provider '' @ srv_id s')], s')
         else (True, [], s'))"

definition api_headers :: "'a collaborators \<Rightarrow> 'a server \<Rightarrow> headers" where
  "api_headers c s = PrepareApiCallHeaders (AccessToken c s) (UserId c s) (srv_devideId s)"



definition ApiPost :: "'a collaborators \<Rightarrow> 'a server \<Rightarrow> string \<Rightarrow> json \<Rightarrow> json \<times> effect list \<times> 'a server" where
  "ApiPost c s url data =
     (let (ok, logs, s') = authenticate_private c s
      in if \<not> ok then (JBool False, logs, s')
         else (let req = PostAsJson url (api_headers c s') data
               in (transport c req, logs @ [Http req], s')))"


text \<open>The URL builders the claims are about.\<close>

definition BuildUrl :: "'a server \<Rightarrow> string \<Rightarrow> error + string" where
  "BuildUrl s endpoint =
     (if endpoint = [] then Inl (ValueError ''Invalid endpoint'')
      else Inr (Url_append (srv_url s) [endpoint]))"

definition BuildPlayableItemUrl :: "'a server \<Rightarrow> string \<Rightarrow> string \<Rightarrow> string \<Rightarrow> error + string" where
  "BuildPlayableItemUrl s mediaType itemId container =
     (if itemId = [] then Inl (ValueError ''Invalid itemId'')
      else if mediaType \<noteq> ''Video'' \<and> mediaType \<noteq> ''Audio''
      then Inl (ValueError (''Invalid mediaType \"'' @ mediaType @ ''\"''))
      else
        (case BuildUrl s (if mediaType = ''Video'' then ''Videos'' else ''Audio'') of
           Inl e \<Rightarrow> Inl e
         | Inr url0 \<Rightarrow>
             (let url1 = Url_append url0 [itemId, ''stream''];
                  url2 = (if container \<noteq> []
                          then url1 @ ''.'' @ hd (py_split CHR '','' container)
                          else url1)
              in Inr (Url_addOptions url2 [(''static'', ''true'')]))))"

definition BuildSessionsPlayingUrl :: "'a server \<Rightarrow> string" where
  "BuildSessionsPlayingUrl s = Url_append (srv_url s) [URL_SESSIONS, URL_SESSIONS_PLAYING]"

definition BuildSessionsPlayingProgressUrl :: "'a server \<Rightarrow> string" where
  "BuildSessionsPlayingProgressUrl s =
     Url_append (BuildSessionsPlayingUrl s) [URL_SESSIONS_PLAYING_PROGRESS]"

definition BuildSessionsPlayingStoppedUrl :: "'a server \<Rightarrow> string" where
  "BuildSessionsPlayingStoppedUrl s =
     Url_append (BuildSessionsPlayingUrl s) [URL_SESSIONS_PLAYING_STOPPED]"

section \<open>The host's playback surface\<close>

text \<open>
  What the host (\<^verbatim>\<open>xbmc.Player\<close>, \<^verbatim>\<open>xbmcmediaimport\<close>, \<^verbatim>\<open>time\<close>, \<^verbatim>\<open>uuid\<close>) answers
  during one callback. A video info tag is the list of its unique ids by namespace;
  \<^verbatim>\<open>getUniqueID\<close> yields the empty string for a namespace without an id.
\<close>

type_synonym video_info_tag = "(string \<times> string) list"

definition getUniqueID :: "video_info_tag \<Rightarrow> string \<Rightarrow> string" where
  "getUniqueID tag key = (case map_of tag key of None \<Rightarrow> [] | Some v \<Rightarrow> v)"

record list_item =
  item_label :: string
  item_tag :: "video_info_tag option"

text \<open>
  \<open>host_ticks\<close> is the pair \<^verbatim>\<open>Api.secondsToTicks(getTime())\<close>,
  \<^verbatim>\<open>Api.secondsToTicks(getTotalTime())\<close>, or \<open>None\<close> when reading it raises.
  \<open>host_now\<close> is the clock reading \<^verbatim>\<open>time.time()\<close> taken when a report has been made;
  clock readings are reals, floating-point rounding is not modelled.
  \<open>host_uuid\<close> is \<^verbatim>\<open>str(uuid4())\<close>.
\<close>

record host =
  host_playingFile :: string
  host_isPlayingVideo :: bool
  host_videoInfoTag :: "video_info_tag option"
  host_importedItems :: "media_provider \<Rightarrow> list_item list"
  host_ticks :: "(int \<times> int) option"
  host_now :: real
  host_uuid :: string

text \<open>Modelled from the spec: \<^verbatim>\<open>mediaProvider2str\<close> of \<^verbatim>\<open>lib.utils\<close> is not among the
  sources; the warning it is used in names the provider, here by its identifier.\<close>

definition mediaProvider2str :: "media_provider \<Rightarrow> string" where
  "mediaProvider2str mp = getIdentifier mp"

section \<open>Player\<close>

text \<open>
  The fields of \<^verbatim>\<open>Player\<close>. The registry \<^verbatim>\<open>_providers\<close> is a dictionary from
  identifier to provider, kept as an association list in the dictionary's iteration
  order: a new key goes to the end, an existing key keeps its place.
\<close>

record player =
  progressInterval :: real
  lastProgressReport :: "real option"
  providers :: "(string \<times> media_provider) list"
  file' :: "string option"
  item :: "list_item option"
  itemId :: "string option"
  mediaProvider :: "media_provider option"
  playSessionId :: "string option"
  paused :: bool

text \<open>\<^verbatim>\<open>Player.__init__(progressInterval=None)\<close>: \<^verbatim>\<open>progressInterval or 10\<close>.\<close>

definition Player_init :: "real option \<Rightarrow> player" where
  "Player_init interval =
     \<lparr>progressInterval = (case interval of None \<Rightarrow> 10 | Some x \<Rightarrow> if x = 0 then 10 else x),
      lastProgressReport = None,
      providers = [],
      file' = None, item = None, itemId = None, mediaProvider = None,
      playSessionId = None, paused = False\<rparr>"

text \<open>What a method of the player leaves: the player afterwards, the effects, and the
  exception that left the method, if any (fields assigned before it keep their values).\<close>

type_synonym outcome = "player \<times> effect list \<times> error option"

fun dict_set :: "(string \<times> 'b) list \<Rightarrow> string \<Rightarrow> 'b \<Rightarrow> (string \<times> 'b) list" where
  "dict_set [] k v = [(k, v)]"
| "dict_set ((k', v') # kvs) k v =
     (if k' = k then (k, v) # kvs else (k', v') # dict_set kvs k v)"

fun dict_del :: "(string \<times> 'b) list \<Rightarrow> string \<Rightarrow> (string \<times> 'b) list" where
  "dict_del [] k = []"
| "dict_del ((k', v') # kvs) k = (if k' = k then kvs else (k', v') # dict_del kvs k)"

definition AddProvider :: "media_provider option \<Rightarrow> player \<Rightarrow> outcome" where
  "AddProvider mediaProvider_arg p =
     (case mediaProvider_arg of
        None \<Rightarrow> (p, [], Some (ValueError ''invalid mediaProvider''))
      | Some mp \<Rightarrow> (p\<lparr>providers := dict_set (providers p) (getIdentifier mp) mp\<rparr>, [], None))"

definition RemoveProvider :: "media_provider option \<Rightarrow> player \<Rightarrow> outcome" where
  "RemoveProvider mediaProvider_arg p =
     (case mediaProvider_arg of
        None \<Rightarrow> (p, [], Some (ValueError ''invalid mediaProvider''))
      | Some mp \<Rightarrow>
          (if map_of (providers p) (getIdentifier mp) = None
           then (p, [], Some (KeyError (getIdentifier mp)))
           else (p\<lparr>providers := dict_del (providers p) (getIdentifier mp)\<rparr>, [], None)))"

text \<open>\<^verbatim>\<open>_reset\<close>.\<close>

definition reset :: "player \<Rightarrow> player" where
  "reset p = p\<lparr>file' := None, item := None, itemId := None, mediaProvider := None,
               playSessionId := None, paused := False\<rparr>"

definition json_of_str :: "string option \<Rightarrow> json" where
  "json_of_str x = (case x of None \<Rightarrow> JNull | Some s \<Rightarrow> JStr s)"

text \<open>\<^verbatim>\<open>_preparePlayingData(stopped, event, failed)\<close>; the keys added by the
  \<^verbatim>\<open>update\<close> calls are new ones, so they are appended.\<close>

definition preparePlayingData ::
  "host \<Rightarrow> bool \<Rightarrow> string option \<Rightarrow> bool \<Rightarrow> player \<Rightarrow> (string \<times> json) list" where
  "preparePlayingData h stopped event failed p =
     [(''ItemId'', json_of_str (itemId p)),
      (''PlaySessionId'', json_of_str (playSessionId p)),
      (''PlaylistIndex'', JNum 0),
      (''PlaylistLength'', JNum 1)] @
     (if stopped then [(''Failed'', JBool failed)]
      else
        [(''QueueableMediaTypes'', JStr ''Audio,Video''),
         (''CanSeek'', JBool True),
         (''PlayMethod'', JStr PLAYING_PLAY_METHOD_DIRECT_STREAM),
         (''IsPaused'', JBool (paused p))] @
        (case host_ticks h of
           None \<Rightarrow> []
         | Some (pos, dur) \<Rightarrow> [(''PositionTicks'', JNum pos), (''RunTimeTicks'', JNum dur)]) @
        (case event of
           None \<Rightarrow> []
         | Some ev \<Rightarrow> if ev = [] then [] else [(''EventName'', JStr ev)]))"

text \<open>The items of one provider that match the playing item (the list comprehension of
  \<^verbatim>\<open>_startPlayback\<close>).\<close>

definition matchingItems :: "string \<Rightarrow> host \<Rightarrow> player \<Rightarrow> media_provider \<Rightarrow> list_item list" where
  "matchingItems key h p mp =
     filter (\<lambda>importedItem.
               case item_tag importedItem of
                 None \<Rightarrow> False
               | Some tag \<Rightarrow> Some (getUniqueID tag key) = itemId p)
            (host_importedItems h mp)"

text \<open>The loop of \<^verbatim>\<open>_startPlayback\<close> over \<^verbatim>\<open>self._providers.values()\<close>.\<close>

fun matchProviders :: "string \<Rightarrow> host \<Rightarrow> player \<Rightarrow> media_provider list \<Rightarrow> player \<times> effect list" where
  "matchProviders key h p [] = (p, [])"
| "matchProviders key h p (mp # mps) =
     (case matchingItems key h p mp of
        [] \<Rightarrow> matchProviders key h p mps
      | m # ms \<Rightarrow>
          (p\<lparr>item := Some m, mediaProvider := Some mp\<rparr>,
           if ms \<noteq> []
           then [Log (Some LOGWARNING)
                   (''multiple items imported from '' @ mediaProvider2str mp
                    @ '' match the imported Emby item '' @ (case itemId p of None \<Rightarrow> ''None'' | Some i \<Rightarrow> i)
                    @ '' playing from '' @ (case file' p of None \<Rightarrow> ''None'' | Some f \<Rightarrow> f))]
           else []))"

text \<open>\<^verbatim>\<open>_startPlayback\<close>.\<close>

definition startPlayback :: "'a collaborators \<Rightarrow> host \<Rightarrow> player \<Rightarrow> outcome" where
  "startPlayback c h p =
     (if file' p = None \<or> file' p = Some [] then (p, [], None)
      else if \<not> host_isPlayingVideo h then (p, [], None)
      else
        (case host_videoInfoTag h of
           None \<Rightarrow> (p, [], None)
         | Some videoInfoTag \<Rightarrow>
             (let p1 = p\<lparr>itemId := Some (getUniqueID videoInfoTag (EMBY_PROTOCOL c))\<rparr>
              in if itemId p1 = Some [] then (p1, [], None)
                 else
                   (let (p2, logs) = matchProviders (EMBY_PROTOCOL c) h p1 (map snd (providers p1))
                    in if item p2 = None then (p2, logs, None)
                       else
                         (let p3 = p2\<lparr>playSessionId := Some (filter (\<lambda>ch. ch \<noteq> CHR ''-'') (host_uuid h))\<rparr>;
                              data = preparePlayingData h False None False p3
                          in case Server_init c (mediaProvider p3) of
                               Inl e \<Rightarrow> (p3, logs, Some e)
                             | Inr server \<Rightarrow>
                                 (let (r, effs, server') =
                                        ApiPost c server (BuildSessionsPlayingUrl server) (JObj data)
                                  in (p3\<lparr>lastProgressReport := Some (host_now h)\<rparr>, logs @ effs, None)))))))"

text \<open>\<^verbatim>\<open>_reportPlaybackProgress(event)\<close>.\<close>

definition reportPlaybackProgress :: "'a collaborators \<Rightarrow> host \<Rightarrow> string \<Rightarrow> player \<Rightarrow> outcome" where
  "reportPlaybackProgress c h event p =
     (if item p = None then (p, [], None)
      else
        (let data = preparePlayingData h False (Some event) False p
         in case Server_init c (mediaProvider p) of
              Inl e \<Rightarrow> (p, [], Some e)
            | Inr server \<Rightarrow>
                (let (r, effs, server') =
                       ApiPost c server (BuildSessionsPlayingProgressUrl server) (JObj data)
                 in (p\<lparr>lastProgressReport := Some (host_now h)\<rparr>, effs, None))))"

text \<open>\<^verbatim>\<open>_stopPlayback(failed)\<close>.\<close>

definition stopPlayback :: "'a collaborators \<Rightarrow> host \<Rightarrow> bool \<Rightarrow> player \<Rightarrow> outcome" where
  "stopPlayback c h failed p =
     (if item p = None then (p, [], None)
      else
        (let data = preparePlayingData h True None failed p
         in case Server_init c (mediaProvider p) of
              Inl e \<Rightarrow> (p, [], Some e)
            | Inr server \<Rightarrow>
                (let (r, effs, server') =
                       ApiPost c server (BuildSessionsPlayingStoppedUrl server) (JObj data)
                 in (reset p, effs, None))))"

text \<open>\<^verbatim>\<open>Process\<close>; \<open>t\<close> is the clock reading \<^verbatim>\<open>time.time()\<close> of the interval check. A
  stored reading of \<open>0\<close> is as false for \<^verbatim>\<open>not self._lastProgressReport\<close> as \<^verbatim>\<open>None\<close>.\<close>

definition Process :: "'a collaborators \<Rightarrow> host \<Rightarrow> real \<Rightarrow> player \<Rightarrow> outcome" where
  "Process c h t p =
     (case lastProgressReport p of
        None \<Rightarrow> (p, [], None)
      | Some l \<Rightarrow>
          if l = 0 then (p, [], None)
          else if t - l < progressInterval p then (p, [], None)
          else reportPlaybackProgress c h PLAYING_PROGRESS_EVENT_TIME_UPDATE p)"

definition onPlayBackStarted :: "host \<Rightarrow> player \<Rightarrow> outcome" where
  "onPlayBackStarted h p = ((reset p)\<lparr>file' := Some (host_playingFile h)\<rparr>, [], None)"

definition onAVStarted :: "'a collaborators \<Rightarrow> host \<Rightarrow> player \<Rightarrow> outcome" where
  "onAVStarted c h p = startPlayback c h p"

definition onPlayBackSeek :: "'a collaborators \<Rightarrow> host \<Rightarrow> player \<Rightarrow> outcome" where
  "onPlayBackSeek c h p = reportPlaybackProgress c h PLAYING_PROGRESS_EVENT_TIME_UPDATE p"

definition onPlayBackSeekChapter :: "'a collaborators \<Rightarrow> host \<Rightarrow> player \<Rightarrow> outcome" where
  "onPlayBackSeekChapter c h p = reportPlaybackProgress c h PLAYING_PROGRESS_EVENT_TIME_UPDATE p"

definition onPlayBackPaused :: "'a collaborators \<Rightarrow> host \<Rightarrow> player \<Rightarrow> outcome" where
  "onPlayBackPaused c h p =
     reportPlaybackProgress c h PLAYING_PROGRESS_EVENT_PAUSE (p\<lparr>paused := True\<rparr>)"

definition onPlayBackResumed :: "'a collaborators \<Rightarrow> host \<Rightarrow> player \<Rightarrow> outcome" where
  "onPlayBackResumed c h p =
     reportPlaybackProgress c h PLAYING_PROGRESS_EVENT_UNPAUSE (p\<lparr>paused := False\<rparr>)"

definition onPlayBackStopped :: "'a collaborators \<Rightarrow> host \<Rightarrow> player \<Rightarrow> outcome" where
  "onPlayBackStopped c h p = stopPlayback c h False p"

definition onPlayBackEnded :: "'a collaborators \<Rightarrow> host \<Rightarrow> player \<Rightarrow> outcome" where
  "onPlayBackEnded c h p = stopPlayback c h False p"

definition onPlayBackError :: "'a collaborators \<Rightarrow> host \<Rightarrow> player \<Rightarrow> outcome" where
  "onPlayBackError c h p = stopPlayback c h True p"

subsection \<open>Sequences of calls\<close>

datatype event =
    EvAddProvider "media_provider option"
  | EvRemoveProvider "media_provider option"
  | EvProcess real
  | EvPlayBackStarted
  | EvAVStarted
  | EvPlayBackSeek
  | EvPlayBackSeekChapter
  | EvPlayBackPaused
  | EvPlayBackResumed
  | EvPlayBackStopped
  | EvPlayBackEnded
  | EvPlayBackError

text \<open>One call of a public method, with what the host answers during it.\<close>

fun step :: "'a collaborators \<Rightarrow> host \<times> event \<Rightarrow> player \<Rightarrow> outcome" where
  "step c (h, EvAddProvider mp) p = AddProvider mp p"
| "step c (h, EvRemoveProvider mp) p = RemoveProvider mp p"
| "step c (h, EvProcess t) p = Process c h t p"
| "step c (h, EvPlayBackStarted) p = onPlayBackStarted h p"
| "step c (h, EvAVStarted) p = onAVStarted c h p"
| "step c (h, EvPlayBackSeek) p = onPlayBackSeek c h p"
| "step c (h, EvPlayBackSeekChapter) p = onPlayBackSeekChapter c h p"
| "step c (h, EvPlayBackPaused) p = onPlayBackPaused c h p"
| "step c (h, EvPlayBackResumed) p = onPlayBackResumed c h p"
| "step c (h, EvPlayBackStopped) p = onPlayBackStopped c h p"
| "step c (h, EvPlayBackEnded) p = onPlayBackEnded c h p"
| "step c (h, EvPlayBackError) p = onPlayBackError c h p"

text \<open>The player after a sequence of calls; an exception leaves one call, the host
  goes on calling.\<close>

fun run :: "'a collaborators \<Rightarrow> (host \<times> event) list \<Rightarrow> player \<Rightarrow> player" where
  "run c [] p = p"
| "run c (e # es) p = run c es (fst (step c e p))"

text \<open>A report to the Stopped endpoint is a POST whose URL ends in
  \<^verbatim>\<open>/Sessions/Playing/Stopped\<close>.\<close>

fun isStoppedPost :: "effect \<Rightarrow> bool" where
  "isStoppedPost (Http (PostAsJson url hdrs body)) = suffix ''/Sessions/Playing/Stopped'' url"
| "isStoppedPost _ = False"

text \<open>The fields of a matched session that go together: the matched item, the
  provider it was matched with and the session identifier are assigned together or not
  at all.\<close>

definition sessionGroup :: "player \<Rightarrow> bool" where
  "sessionGroup p =
     ((item p = None) = (mediaProvider p = None)
      \<and> (item p = None) = (playSessionId p = None))"

text \<open>The item id is outside that group. With a matched item it has been assigned, and
  no more: it is not \<^verbatim>\<open>None\<close>, but it may be the empty string, which the source reads
  as no id (\<^verbatim>\<open>if not self._itemId\<close>).\<close>

definition itemIdAssigned :: "player \<Rightarrow> bool" where
  "itemIdAssigned p = (item p = None \<or> itemId p \<noteq> None)"

definition sessionFields :: "player \<Rightarrow> bool" where
  "sessionFields p = (sessionGroup p \<and> itemIdAssigned p)"

section \<open>Concrete inputs\<close>

text \<open>
  A collaborator set, providers, a server and host answers on which the definitions are
  evaluated. The authenticator object is the pair (authenticated, credentials accepted):
  it starts unauthenticated and accepts the password \<^verbatim>\<open>secret\<close>.
\<close>

definition example_collaborators :: "(bool \<times> bool) collaborators" where
  "example_collaborators =
     \<lparr>EMBY_PROTOCOL = ''emby'',
      SETTING_PROVIDER_USER_OPTION_MANUAL = ''manual'',
      authWithUsername = (\<lambda>url dev user pw. (False, pw = ''secret'')),
      authWithUserId = (\<lambda>url dev user pw. (False, pw = ''secret'')),
      authIsAuthenticated = fst,
      authAuthenticate = (\<lambda>a. (snd a, (snd a, snd a))),
      authAccessToken = (\<lambda>a. if fst a then ''token'' else []),
      authUserId = (\<lambda>a. ''uid''),
      transport = (\<lambda>r. JObj [])\<rparr>"

definition example_provider :: media_provider where
  "example_provider =
     \<lparr>getIdentifier = ''emby://srv/'', getBasePath = ''http://host:8096'',
      getSettings = Some \<lparr>set_deviceId = ''dev'', set_user = ''uid'', set_username = [],
                          set_password = ''secret''\<rparr>\<rparr>"

definition example_provider_rejected :: media_provider where
  "example_provider_rejected =
     \<lparr>getIdentifier = ''emby://srv/'', getBasePath = ''http://host:8096'',
      getSettings = Some \<lparr>set_deviceId = ''dev'', set_user = ''uid'', set_username = [],
                          set_password = ''wrong''\<rparr>\<rparr>"

definition example_provider_unnamed :: media_provider where
  "example_provider_unnamed =
     \<lparr>getIdentifier = [], getBasePath = ''http://host:8096'', getSettings = None\<rparr>"

definition example_server :: "(bool \<times> bool) server" where
  "example_server =
     \<lparr>srv_baseUrl = ''http://host:8096'', srv_url = ''http://host:8096/emby'',
      srv_id = ''emby://srv/'', srv_devideId = ''dev'', srv_authenticator = (False, True)\<rparr>"

definition example_server_rejected :: "(bool \<times> bool) server" where
  "example_server_rejected = example_server\<lparr>srv_authenticator := (False, False)\<rparr>"

definition example_item :: list_item where
  "example_item = \<lparr>item_label = ''Movie'', item_tag = Some [(''emby'', ''abc123'')]\<rparr>"

definition example_host :: host where
  "example_host =
     \<lparr>host_playingFile = ''http://host:8096/emby/Videos/abc123/stream.mkv?static=true'',
      host_isPlayingVideo = True,
      host_videoInfoTag = Some [(''emby'', ''abc123'')],
      host_importedItems = (\<lambda>mp. if getIdentifier mp = ''emby://srv/'' then [example_item] else []),
      host_ticks = Some (15000000, 600000000),
      host_now = 100,
      host_uuid = ''123e4567-e89b-42d3-a456-426614174000''\<rparr>"

text \<open>A player with a matched session: provider registered, playback started, streams
  started.\<close>

definition example_playing :: "media_provider \<Rightarrow> player" where
  "example_playing mp =
     run example_collaborators
       [(example_host, EvAddProvider (Some mp)),
        (example_host, EvPlayBackStarted),
        (example_host, EvAVStarted)]
       (Player_init None)"

text \<open>A provider with the identifier of \<open>example_provider\<close> and no settings, and a
  player that has played and stopped one session with \<open>example_provider\<close> and then
  matched a new one with the provider without settings.\<close>

definition example_provider_without_settings :: media_provider where
  "example_provider_without_settings =
     \<lparr>getIdentifier = ''emby://srv/'', getBasePath = ''http://host:8096'', getSettings = None\<rparr>"

definition example_playing_without_settings :: player where
  "example_playing_without_settings =
     run example_collaborators
       [(example_host, EvAddProvider (Some example_provider)),
        (example_host, EvPlayBackStarted),
        (example_host, EvAVStarted),
        (example_host, EvPlayBackStopped),
        (example_host, EvAddProvider (Some example_provider_without_settings)),
        (example_host, EvPlayBackStarted),
        (example_host, EvAVStarted)]
       (Player_init None)"

text \<open>Playback of a video whose unique id no imported item has, and of one without a
  unique id.\<close>

definition example_host_unknown_video :: host where
  "example_host_unknown_video = example_host\<lparr>host_videoInfoTag := Some [(''emby'', ''zzz999'')]\<rparr>"

definition example_host_no_id :: host where
  "example_host_no_id = example_host\<lparr>host_videoInfoTag := Some []\<rparr>"

text \<open>A version parser standing in for \<^verbatim>\<open>semantic_version.Version\<close>: it keeps the string.\<close>

definition example_Version :: "string \<Rightarrow> error + string" where
  "example_Version v = Inr v"

definition example_response :: "string option \<Rightarrow> (string \<times> json) list" where
  "example_response product =
     [(''Id'', JStr ''srv''), (''ServerName'', JStr ''home''), (''Version'', JStr ''4.7.2.1'')]
     @ (case product of None \<Rightarrow> [] | Some n \<Rightarrow> [(''ProductName'', JStr n)])"

section \<open>Strings\<close>

lemma py_split_not_Nil: "py_split sep s \<noteq> []"
  by (induction s) (auto split: list.splits)

lemma hd_py_split: "hd (py_split sep s) = takeWhile (\<lambda>c. c \<noteq> sep) s"
  by (induction s) (auto simp: py_split_not_Nil split: list.splits)

section \<open>Server: URL of a playable item\<close>

text \<open>
  C8. \<^verbatim>\<open>BuildPlayableItemUrl('Video', 'abc123', 'mkv,mp4')\<close> returns the server's API
  root followed by \<^verbatim>\<open>/Videos/abc123/stream.mkv?static=true\<close>; for every non-empty
  container argument the suffix after \<^verbatim>\<open>stream.\<close> is the text before the first comma,
  so of several comma-separated formats only the first is used; and with a non-empty
  item id every media type other than \<^verbatim>\<open>Video\<close> and \<^verbatim>\<open>Audio\<close> raises
  \<^verbatim>\<open>ValueError\<close>. The shape of the URL rests on \<open>Url_append\<close> and
  \<open>Url_addOptions\<close>, which follow the specification.
\<close>

theorem BuildPlayableItemUrl_first_container:
  "suffix ''/Videos/abc123/stream.mkv?static=true''
      (case BuildPlayableItemUrl s ''Video'' ''abc123'' ''mkv,mp4'' of Inl e \<Rightarrow> [] | Inr u \<Rightarrow> u)
   \<and> BuildPlayableItemUrl s ''Video'' ''abc123'' ''mkv,mp4''
        = Inr (srv_url s @ ''/Videos/abc123/stream.mkv?static=true'')
   \<and> (iid \<noteq> [] \<and> container \<noteq> [] \<longrightarrow>
        BuildPlayableItemUrl s ''Video'' iid container
          = Inr (srv_url s @ ''/Videos/'' @ iid @ ''/stream.''
                 @ takeWhile (\<lambda>ch. ch \<noteq> CHR '','') container @ ''?static=true''))
   \<and> (iid \<noteq> [] \<and> mediaType \<noteq> ''Video'' \<and> mediaType \<noteq> ''Audio'' \<longrightarrow>
        BuildPlayableItemUrl s mediaType iid container
          = Inl (ValueError (''Invalid mediaType \"'' @ mediaType @ ''\"'')))"
proof -
  have gen: "BuildPlayableItemUrl s ''Video'' i k
          = Inr (srv_url s @ ''/Videos/'' @ i @ ''/stream.''
                 @ takeWhile (\<lambda>ch. ch \<noteq> CHR '','') k @ ''?static=true'')"
    if "i \<noteq> []" "k \<noteq> []" for i k
    using that
    by (simp add: BuildPlayableItemUrl_def BuildUrl_def Url_append_def Url_addOptions_def
        hd_py_split)
  have ex: "BuildPlayableItemUrl s ''Video'' ''abc123'' ''mkv,mp4''
        = Inr (srv_url s @ ''/Videos/abc123/stream.mkv?static=true'')"
    using gen [of "''abc123''" "''mkv,mp4''"] by simp
  have bad: "BuildPlayableItemUrl s mediaType iid container
          = Inl (ValueError (''Invalid mediaType \"'' @ mediaType @ ''\"''))"
    if "iid \<noteq> []" "mediaType \<noteq> ''Video''" "mediaType \<noteq> ''Audio''"
    using that by (simp add: BuildPlayableItemUrl_def)
  show ?thesis
    using gen ex bad by (simp add: suffix_def)
qed

theorem BuildPlayableItemUrl_first_container_witness:
  "BuildPlayableItemUrl example_server ''Video'' ''abc123'' ''mkv,mp4''
     = Inr ''http://host:8096/emby/Videos/abc123/stream.mkv?static=true''
   \<and> BuildPlayableItemUrl example_server ''Video'' ''xyz'' ''avi,mkv''
     = Inr ''http://host:8096/emby/Videos/xyz/stream.avi?static=true''
   \<and> BuildPlayableItemUrl example_server ''Subtitle'' ''xyz'' ''avi,mkv''
     = Inl (ValueError ''Invalid mediaType \"Subtitle\"'')"
  using BuildPlayableItemUrl_first_container
    [where s = example_server and iid = "''xyz''" and container = "''avi,mkv''"
       and mediaType = "''Subtitle''"]
  by (simp add: example_server_def)

section \<open>Server.Info: construction from a public-info response\<close>

lemma fromPublicInfo_absent:
  "fromPublicInfo V None = Inr None"
  "r = [] \<or> map_of r PROPERTY_SYSTEM_INFO_ID = None
     \<or> map_of r PROPERTY_SYSTEM_INFO_SERVER_NAME = None
     \<or> map_of r PROPERTY_SYSTEM_INFO_VERSION = None
   \<Longrightarrow> fromPublicInfo V (Some r) = Inr None"
  by (auto simp: fromPublicInfo_def)

lemma fromPublicInfo_present:
  assumes "map_of r PROPERTY_SYSTEM_INFO_ID = Some i"
    and "map_of r PROPERTY_SYSTEM_INFO_SERVER_NAME = Some n"
    and "map_of r PROPERTY_SYSTEM_INFO_VERSION = Some (JStr v)"
  shows "fromPublicInfo V (Some r) =
           (case V (py_join ''.'' (take 3 (py_split CHR ''.'' v))) of
              Inl e \<Rightarrow> Inl e
            | Inr ver \<Rightarrow>
                (case Info_init i n ver
                        (case map_of r PROPERTY_SYSTEM_INFO_PRODUCT_NAME of
                           Some x \<Rightarrow> x | None \<Rightarrow> JNull) of
                   Inl e \<Rightarrow> Inl e
                 | Inr res \<Rightarrow> Inr (Some res)))"
proof -
  from assms(1) have "r \<noteq> []" by auto
  with assms show ?thesis
    by (simp add: fromPublicInfo_def Let_def split: sum.splits)
qed

text \<open>
  C4, as amended. When the response is \<^verbatim>\<open>None\<close> or empty, or the id, the server name
  or the version key is absent, \<^verbatim>\<open>fromPublicInfo\<close> returns \<^verbatim>\<open>None\<close>. When the three
  keys are present, the version is a string and the id is present but false in Python's
  sense (empty string, null, zero), no Info is produced either, but by an exception:
  the error of the version parser if it rejects the version, \<^verbatim>\<open>ValueError('invalid id')\<close>
  of \<^verbatim>\<open>Server.Info.__init__\<close> otherwise.
\<close>

theorem fromPublicInfo_missing_or_invalid:
  "((response = None
      \<or> (\<exists>r. response = Some r \<and>
            (r = [] \<or> map_of r PROPERTY_SYSTEM_INFO_ID = None
              \<or> map_of r PROPERTY_SYSTEM_INFO_SERVER_NAME = None
              \<or> map_of r PROPERTY_SYSTEM_INFO_VERSION = None)))
     \<longrightarrow> fromPublicInfo V response = Inr None)
   \<and> (map_of r PROPERTY_SYSTEM_INFO_ID = Some i \<and> \<not> truthy i
        \<and> map_of r PROPERTY_SYSTEM_INFO_SERVER_NAME = Some n
        \<and> map_of r PROPERTY_SYSTEM_INFO_VERSION = Some (JStr v)
      \<longrightarrow> fromPublicInfo V (Some r) =
            (case V (py_join ''.'' (take 3 (py_split CHR ''.'' v))) of
               Inl e \<Rightarrow> Inl e
             | Inr ver \<Rightarrow> Inl (ValueError ''invalid id'')))"
proof (intro conjI impI)
  assume "response = None
      \<or> (\<exists>r. response = Some r \<and>
            (r = [] \<or> map_of r PROPERTY_SYSTEM_INFO_ID = None
              \<or> map_of r PROPERTY_SYSTEM_INFO_SERVER_NAME = None
              \<or> map_of r PROPERTY_SYSTEM_INFO_VERSION = None))"
  then show "fromPublicInfo V response = Inr None"
    using fromPublicInfo_absent by blast
next
  assume "map_of r PROPERTY_SYSTEM_INFO_ID = Some i \<and> \<not> truthy i
        \<and> map_of r PROPERTY_SYSTEM_INFO_SERVER_NAME = Some n
        \<and> map_of r PROPERTY_SYSTEM_INFO_VERSION = Some (JStr v)"
  then show "fromPublicInfo V (Some r) =
            (case V (py_join ''.'' (take 3 (py_split CHR ''.'' v))) of
               Inl e \<Rightarrow> Inl e
             | Inr ver \<Rightarrow> Inl (ValueError ''invalid id''))"
    by (simp add: fromPublicInfo_present Info_init_def split: sum.splits)
qed

theorem fromPublicInfo_missing_or_invalid_witness:
  "fromPublicInfo example_Version (Some [(''Id'', JStr ''srv''), (''Version'', JStr ''4.7.2'')]) = Inr None
   \<and> fromPublicInfo example_Version
       (Some [(''Id'', JNull), (''ServerName'', JStr ''home''), (''Version'', JStr ''4.7.2'')])
      = Inl (ValueError ''invalid id'')"
proof -
  let ?r1 = "[(''Id'', JStr ''srv''), (''Version'', JStr ''4.7.2'')]"
  let ?r2 = "[(''Id'', JNull), (''ServerName'', JStr ''home''), (''Version'', JStr ''4.7.2'')]"
  have h1: "map_of ?r1 PROPERTY_SYSTEM_INFO_SERVER_NAME = None"
    by (simp add: PROPERTY_SYSTEM_INFO_SERVER_NAME_def)
  have h2: "map_of ?r2 PROPERTY_SYSTEM_INFO_ID = Some JNull \<and> \<not> truthy JNull
        \<and> map_of ?r2 PROPERTY_SYSTEM_INFO_SERVER_NAME = Some (JStr ''home'')
        \<and> map_of ?r2 PROPERTY_SYSTEM_INFO_VERSION = Some (JStr ''4.7.2'')"
    by (simp add: PROPERTY_SYSTEM_INFO_ID_def PROPERTY_SYSTEM_INFO_SERVER_NAME_def
        PROPERTY_SYSTEM_INFO_VERSION_def)
  show ?thesis
    using fromPublicInfo_missing_or_invalid [where response = "Some ?r1" and V = example_Version
        and r = ?r2 and i = JNull and n = "JStr ''home''" and v = "''4.7.2''"]
      h1 h2
    by (simp add: example_Version_def)
qed

text \<open>
  The response carries all three required keys and an empty id: the call does not
  return \<^verbatim>\<open>None\<close>, it raises \<^verbatim>\<open>ValueError('invalid id')\<close>.
\<close>

theorem fromPublicInfo_empty_id_counterexample:
  "fromPublicInfo example_Version
     (Some [(''Id'', JStr []), (''ServerName'', JStr ''home''), (''Version'', JStr ''4.7.2'')])
   = Inl (ValueError ''invalid id'')
   \<and> fromPublicInfo example_Version
     (Some [(''Id'', JStr []), (''ServerName'', JStr ''home''), (''Version'', JStr ''4.7.2'')])
   \<noteq> Inr None"
  by (simp add: fromPublicInfo_def example_Version_def Info_init_def
      PROPERTY_SYSTEM_INFO_ID_def PROPERTY_SYSTEM_INFO_SERVER_NAME_def
      PROPERTY_SYSTEM_INFO_VERSION_def PROPERTY_SYSTEM_INFO_PRODUCT_NAME_def)

lemma Info_init_product:
  "Info_init i n ver x = Inr res \<Longrightarrow>
     info_version res = ver \<and> info_product res = (if truthy x then x else JStr EMBY_SERVER)"
  by (auto simp: Info_init_def split: if_splits)

lemma fromPublicInfo_accepted_shape:
  assumes "fromPublicInfo V (Some r) = Inr (Some res)"
  shows "\<exists>v. map_of r PROPERTY_SYSTEM_INFO_VERSION = Some (JStr v)
           \<and> V (py_join ''.'' (take 3 (py_split CHR ''.'' v))) = Inr (info_version res)
           \<and> info_product res =
               (case map_of r PROPERTY_SYSTEM_INFO_PRODUCT_NAME of
                  None \<Rightarrow> JStr EMBY_SERVER
                | Some x \<Rightarrow> if truthy x then x else JStr EMBY_SERVER)"
  using assms
  by (auto simp: fromPublicInfo_def Let_def split: if_splits option.splits json.splits sum.splits
      dest!: Info_init_product)

text \<open>
  C9, as amended. For every response \<^verbatim>\<open>fromPublicInfo\<close> accepts, the version given to
  the version parser is the first three dot-separated components of the version string
  (\<^verbatim>\<open>4.7.2\<close> for \<^verbatim>\<open>4.7.2.1\<close>). Without a \<^verbatim>\<open>ProductName\<close> the Info is an Emby
  server; with \<^verbatim>\<open>Jellyfin Server\<close> it is a Jellyfin server; a \<^verbatim>\<open>ProductName\<close> that is
  \<^verbatim>\<open>Emby Server\<close> or false in Python's sense (empty, null) also gives an Emby server;
  exactly the remaining product names are unknown.
\<close>

theorem fromPublicInfo_version_and_product:
  "(fromPublicInfo V (Some r) = Inr (Some res) \<longrightarrow>
      (\<exists>v. map_of r PROPERTY_SYSTEM_INFO_VERSION = Some (JStr v)
           \<and> V (py_join ''.'' (take 3 (py_split CHR ''.'' v))) = Inr (info_version res))
      \<and> (map_of r PROPERTY_SYSTEM_INFO_PRODUCT_NAME = None \<longrightarrow> isEmbyServer res)
      \<and> (map_of r PROPERTY_SYSTEM_INFO_PRODUCT_NAME = Some (JStr JELLYFIN_SERVER)
            \<longrightarrow> isJellyfinServer res)
      \<and> (\<forall>x. map_of r PROPERTY_SYSTEM_INFO_PRODUCT_NAME = Some x \<longrightarrow>
            (isEmbyServer res \<longleftrightarrow> \<not> truthy x \<or> x = JStr EMBY_SERVER)
            \<and> (isUnknown res \<longleftrightarrow>
                  truthy x \<and> x \<noteq> JStr EMBY_SERVER \<and> x \<noteq> JStr JELLYFIN_SERVER)))
   \<and> py_join ''.'' (take 3 (py_split CHR ''.'' ''4.7.2.1'')) = ''4.7.2''"
proof -
  have v: "py_join ''.'' (take 3 (py_split CHR ''.'' ''4.7.2.1'')) = ''4.7.2''"
    by simp
  have "EMBY_SERVER \<noteq> JELLYFIN_SERVER"
    by (simp add: EMBY_SERVER_def JELLYFIN_SERVER_def)
  then show ?thesis
    using v fromPublicInfo_accepted_shape [of V r res]
    by (auto simp: isEmbyServer_def isJellyfinServer_def isUnknown_def
        JELLYFIN_SERVER_def split: if_splits)
qed

theorem fromPublicInfo_version_and_product_witness:
  "fromPublicInfo example_Version (Some (example_response (Some ''Jellyfin Server'')))
     = Inr (Some \<lparr>info_id = JStr ''srv'', info_name = JStr ''home'', info_version = ''4.7.2'',
                   info_product = JStr ''Jellyfin Server''\<rparr>)
   \<and> example_Version ''4.7.2'' = Inr ''4.7.2''
   \<and> isJellyfinServer \<lparr>info_id = JStr ''srv'', info_name = JStr ''home'', info_version = ''4.7.2'',
                   info_product = JStr ''Jellyfin Server''\<rparr>
   \<and> \<not> isUnknown \<lparr>info_id = JStr ''srv'', info_name = JStr ''home'', info_version = ''4.7.2'',
                   info_product = JStr ''Jellyfin Server''\<rparr>"
proof -
  let ?r = "example_response (Some ''Jellyfin Server'')"
  let ?i = "\<lparr>info_id = JStr ''srv'', info_name = JStr ''home'', info_version = ''4.7.2'',
                   info_product = JStr ''Jellyfin Server''\<rparr>"
  have a: "fromPublicInfo example_Version (Some ?r) = Inr (Some ?i)"
    by (simp add: fromPublicInfo_def example_Version_def example_response_def Info_init_def
      PROPERTY_SYSTEM_INFO_ID_def PROPERTY_SYSTEM_INFO_SERVER_NAME_def
      PROPERTY_SYSTEM_INFO_VERSION_def PROPERTY_SYSTEM_INFO_PRODUCT_NAME_def)
  have p: "map_of ?r PROPERTY_SYSTEM_INFO_PRODUCT_NAME = Some (JStr JELLYFIN_SERVER)"
    by (simp add: example_response_def PROPERTY_SYSTEM_INFO_PRODUCT_NAME_def JELLYFIN_SERVER_def)
  have t: "truthy (JStr JELLYFIN_SERVER)" "JStr JELLYFIN_SERVER \<noteq> JStr EMBY_SERVER"
    by (simp_all add: JELLYFIN_SERVER_def EMBY_SERVER_def)
  from fromPublicInfo_version_and_product [of example_Version ?r ?i] a p t
  have "isJellyfinServer ?i" "\<not> isUnknown ?i"
    by blast+
  with a show ?thesis
    by (simp add: example_Version_def)
qed

text \<open>
  A product name other than \<^verbatim>\<open>Jellyfin Server\<close> that is not classified as unknown:
  \<^verbatim>\<open>Emby Server\<close> itself, and the empty product name, which the constructor replaces
  by \<^verbatim>\<open>Emby Server\<close>.
\<close>

theorem fromPublicInfo_other_product_counterexample:
  "fromPublicInfo example_Version (Some (example_response (Some ''Emby Server'')))
     = Inr (Some \<lparr>info_id = JStr ''srv'', info_name = JStr ''home'', info_version = ''4.7.2'',
                   info_product = JStr ''Emby Server''\<rparr>)
   \<and> \<not> isUnknown \<lparr>info_id = JStr ''srv'', info_name = JStr ''home'', info_version = ''4.7.2'',
                   info_product = JStr ''Emby Server''\<rparr>
   \<and> fromPublicInfo example_Version (Some (example_response (Some [])))
     = Inr (Some \<lparr>info_id = JStr ''srv'', info_name = JStr ''home'', info_version = ''4.7.2'',
                   info_product = JStr ''Emby Server''\<rparr>)"
  by (simp add: fromPublicInfo_def example_Version_def example_response_def Info_init_def
      PROPERTY_SYSTEM_INFO_ID_def PROPERTY_SYSTEM_INFO_SERVER_NAME_def
      PROPERTY_SYSTEM_INFO_VERSION_def PROPERTY_SYSTEM_INFO_PRODUCT_NAME_def
      isUnknown_def isEmbyServer_def EMBY_SERVER_def)

section \<open>Server: authenticated calls\<close>

lemma authenticate_private_eq:
  "authenticate_private c s =
     (if fst (Authenticate c s) then (True, [], snd (Authenticate c s))
      else (False, [Log None (''user authentication failed on media provider '' @ srv_id s)],
            snd (Authenticate c s)))"
  by (auto simp: authenticate_private_def Authenticate_def Let_def split: prod.splits)

lemma Authenticate_keeps:
  "srv_devideId (snd (Authenticate c s)) = srv_devideId s"
  "srv_url (snd (Authenticate c s)) = srv_url s"
  "srv_id (snd (Authenticate c s)) = srv_id s"
  by (auto simp: Authenticate_def Let_def split: prod.splits)

lemma ApiPost_eq:
  "ApiPost c s url data =
     (if fst (Authenticate c s)
      then (transport c (PostAsJson url (api_headers c (snd (Authenticate c s))) data),
            [Http (PostAsJson url (api_headers c (snd (Authenticate c s))) data)],
            snd (Authenticate c s))
      else (JBool False,
            [Log None (''user authentication failed on media provider '' @ srv_id s)],
            snd (Authenticate c s)))"
  by (simp add: ApiPost_def authenticate_private_eq Let_def)






section \<open>Player: the provider registry\<close>

lemma map_of_dict_set: "map_of (dict_set kvs k v) = (map_of kvs)(k \<mapsto> v)"
  by (induction kvs k v rule: dict_set.induct) auto

lemma keys_dict_del: "set (map fst (dict_del kvs k)) \<subseteq> set (map fst kvs)"
  by (induction kvs k rule: dict_del.induct) auto

lemma map_of_dict_del:
  "distinct (map fst kvs) \<Longrightarrow> map_of (dict_del kvs k) = (map_of kvs)(k := None)"
proof (induction kvs k rule: dict_del.induct)
  case (1 k)
  then show ?case by simp
next
  case (2 k' v' kvs k)
  then show ?case
    by (auto simp: fun_upd_twist map_of_eq_None_iff)
qed

lemma distinct_dict_set: "distinct (map fst kvs) \<Longrightarrow> distinct (map fst (dict_set kvs k v))"
proof (induction kvs k v rule: dict_set.induct)
  case (1 k v)
  then show ?case by simp
next
  case (2 k' v' kvs k v)
  have "fst ` set (dict_set kvs k v) \<subseteq> insert k (fst ` set kvs)"
    by (induction kvs k v rule: dict_set.induct) auto
  with 2 show ?case by auto
qed

lemma distinct_dict_del: "distinct (map fst kvs) \<Longrightarrow> distinct (map fst (dict_del kvs k))"
proof (induction kvs k rule: dict_del.induct)
  case (1 k)
  then show ?case by simp
next
  case (2 k' v' kvs k)
  with keys_dict_del [of kvs k] show ?case by auto
qed

text \<open>
  C5, as amended. Adding or removing a provider that is \<^verbatim>\<open>None\<close> raises
  \<^verbatim>\<open>ValueError\<close> and stores nothing. Adding any provider object stores it under its
  identifier, whatever the identifier is. Removing a provider whose identifier is not
  in the registry raises \<^verbatim>\<open>KeyError\<close> and changes nothing; removing one whose
  identifier is present succeeds and removes the entry; in particular removing a provider
  just added succeeds.
\<close>

theorem provider_registry:
  "AddProvider None p = (p, [], Some (ValueError ''invalid mediaProvider''))
   \<and> RemoveProvider None p = (p, [], Some (ValueError ''invalid mediaProvider''))
   \<and> AddProvider (Some mp) p
       = (p\<lparr>providers := dict_set (providers p) (getIdentifier mp) mp\<rparr>, [], None)
   \<and> map_of (providers (fst (AddProvider (Some mp) p)))
       = (map_of (providers p))(getIdentifier mp \<mapsto> mp)
   \<and> (map_of (providers p) (getIdentifier mp) = None \<longrightarrow>
        RemoveProvider (Some mp) p = (p, [], Some (KeyError (getIdentifier mp))))
   \<and> (map_of (providers p) (getIdentifier mp) \<noteq> None \<longrightarrow>
        RemoveProvider (Some mp) p
          = (p\<lparr>providers := dict_del (providers p) (getIdentifier mp)\<rparr>, [], None))
   \<and> (distinct (map fst (providers p)) \<longrightarrow>
        distinct (map fst (providers (fst (AddProvider (Some mp) p))))
        \<and> distinct (map fst (providers (fst (RemoveProvider (Some mp) p))))
        \<and> (map_of (providers p) (getIdentifier mp) \<noteq> None \<longrightarrow>
             map_of (providers (fst (RemoveProvider (Some mp) p)))
               = (map_of (providers p))(getIdentifier mp := None)))
   \<and> snd (snd (RemoveProvider (Some mp) (fst (AddProvider (Some mp) p)))) = None"
  by (auto simp: AddProvider_def RemoveProvider_def map_of_dict_set map_of_dict_del
      distinct_dict_set distinct_dict_del)

theorem provider_registry_witness:
  "map_of (providers (Player_init None)) (getIdentifier example_provider) = None
   \<and> RemoveProvider (Some example_provider) (Player_init None)
       = (Player_init None, [], Some (KeyError ''emby://srv/''))
   \<and> distinct (map fst (providers (Player_init None)))
   \<and> map_of (providers (fst (AddProvider (Some example_provider) (Player_init None))))
        ''emby://srv/'' = Some example_provider
   \<and> snd (snd (RemoveProvider (Some example_provider)
                  (fst (AddProvider (Some example_provider) (Player_init None))))) = None"
  using provider_registry [of "Player_init None" example_provider]
  by (simp add: Player_init_def example_provider_def AddProvider_def RemoveProvider_def)

text \<open>
  A provider whose identifier is the empty string is not rejected: it is stored under
  the empty key and no exception is raised.
\<close>

theorem AddProvider_empty_identifier_counterexample:
  "AddProvider (Some example_provider_unnamed) (Player_init None)
     = ((Player_init None)\<lparr>providers := [([], example_provider_unnamed)]\<rparr>, [], None)"
  by (simp add: AddProvider_def Player_init_def example_provider_unnamed_def)

section \<open>Player: reports\<close>

lemma ApiPost_effects:
  "fst (snd (ApiPost c s url data)) =
     (if fst (Authenticate c s)
      then [Http (PostAsJson url (api_headers c (snd (Authenticate c s))) data)]
      else [Log None (''user authentication failed on media provider '' @ srv_id s)])"
  by (simp add: ApiPost_eq)

lemma reportPlaybackProgress_matched:
  assumes "item p \<noteq> None" and "Server_init c (mediaProvider p) = Inr s"
  shows "reportPlaybackProgress c h ev p =
           (p\<lparr>lastProgressReport := Some (host_now h)\<rparr>,
            fst (snd (ApiPost c s (BuildSessionsPlayingProgressUrl s)
                        (JObj (preparePlayingData h False (Some ev) False p)))),
            None)"
  using assms by (auto simp: reportPlaybackProgress_def Let_def split: prod.splits)

lemma reportPlaybackProgress_unmatched:
  "item p = None \<Longrightarrow> reportPlaybackProgress c h ev p = (p, [], None)"
  by (simp add: reportPlaybackProgress_def)

lemma stopPlayback_matched:
  assumes "item p \<noteq> None" and "Server_init c (mediaProvider p) = Inr s"
  shows "stopPlayback c h failed p =
           (reset p,
            fst (snd (ApiPost c s (BuildSessionsPlayingStoppedUrl s)
                        (JObj (preparePlayingData h True None failed p)))),
            None)"
  using assms by (auto simp: stopPlayback_def Let_def split: prod.splits)

lemma stopPlayback_unmatched:
  "item p = None \<Longrightarrow> stopPlayback c h failed p = (p, [], None)"
  by (simp add: stopPlayback_def)

lemma EventName_of_report:
  "ev \<noteq> [] \<Longrightarrow> map_of (preparePlayingData h False (Some ev) False p) ''EventName'' = Some (JStr ev)"
  by (simp add: preparePlayingData_def map_add_def split: option.splits)

lemma progress_url: "BuildSessionsPlayingProgressUrl s = srv_url s @ ''/Sessions/Playing/Progress''"
  by (simp add: BuildSessionsPlayingProgressUrl_def BuildSessionsPlayingUrl_def Url_append_def
      URL_SESSIONS_def URL_SESSIONS_PLAYING_def URL_SESSIONS_PLAYING_PROGRESS_def)

lemma stopped_url: "BuildSessionsPlayingStoppedUrl s = srv_url s @ ''/Sessions/Playing/Stopped''"
  by (simp add: BuildSessionsPlayingStoppedUrl_def BuildSessionsPlayingUrl_def Url_append_def
      URL_SESSIONS_def URL_SESSIONS_PLAYING_def URL_SESSIONS_PLAYING_STOPPED_def)

lemma playing_url: "BuildSessionsPlayingUrl s = srv_url s @ ''/Sessions/Playing''"
  by (simp add: BuildSessionsPlayingUrl_def Url_append_def URL_SESSIONS_def URL_SESSIONS_PLAYING_def)

lemma Server_init_fields:
  assumes "Server_init c (Some mp) = Inr s"
  shows "srv_url s = getBasePath mp @ ''/'' @ EMBY_PROTOCOL c"
    and "srv_id s = getIdentifier mp"
    and "\<exists>st. getSettings mp = Some st \<and> srv_devideId s = set_deviceId st"
  using assms by (auto simp: Server_init_def Url_append_def Let_def split: option.splits)

lemma TimeUpdate_payload:
  "preparePlayingData h False (Some PLAYING_PROGRESS_EVENT_TIME_UPDATE) False p =
     [(''ItemId'', case itemId p of None \<Rightarrow> JNull | Some i \<Rightarrow> JStr i),
      (''PlaySessionId'', case playSessionId p of None \<Rightarrow> JNull | Some i \<Rightarrow> JStr i),
      (''PlaylistIndex'', JNum 0),
      (''PlaylistLength'', JNum 1),
      (''QueueableMediaTypes'', JStr ''Audio,Video''),
      (''CanSeek'', JBool True),
      (''PlayMethod'', JStr ''DirectStream''),
      (''IsPaused'', JBool (paused p))]
     @ (case host_ticks h of
          None \<Rightarrow> []
        | Some (pos, dur) \<Rightarrow> [(''PositionTicks'', JNum pos), (''RunTimeTicks'', JNum dur)])
     @ [(''EventName'', JStr ''TimeUpdate'')]"
  by (simp add: preparePlayingData_def json_of_str_def PLAYING_PLAY_METHOD_DIRECT_STREAM_def
      PLAYING_PROGRESS_EVENT_TIME_UPDATE_def)

text \<open>
  C3, as amended. Take a player with a recorded last-report timestamp \<open>l\<close> that is not
  zero and a matched item. If its provider has settings, so that a \<^verbatim>\<open>Server\<close> can be
  built, \<^verbatim>\<open>Process\<close> makes a time-update report and sets the timestamp to the current
  clock reading if and only if the elapsed time \<open>t - l\<close> is at least the progress
  interval, the elapsed time equal to the interval included; otherwise it changes
  nothing and has no effect. The report is sent only when the server authenticates: it
  is then one POST to \<^verbatim>\<open>/Sessions/Playing/Progress\<close> under the provider's base path and
  API root, with the headers of the access token, the user id and the device id, and the
  body of item id, play session id, playlist index 0, playlist length 1, the fixed
  capability fields, the pause flag, the position and run time when they can be read,
  and the event name \<^verbatim>\<open>TimeUpdate\<close>. When the authentication fails nothing is sent, one
  log line is written, and the timestamp is set all the same. If no \<^verbatim>\<open>Server\<close> can be
  built for the provider, a due \<^verbatim>\<open>Process\<close> ends with the constructor's exception and
  changes nothing. With no recorded timestamp, with a zero one or with no matched item
  \<^verbatim>\<open>Process\<close> does nothing. The interval of a player built without one is 10.
\<close>

theorem Process_interval:
  "(lastProgressReport p = Some l \<and> l \<noteq> 0 \<and> item p \<noteq> None
      \<and> mediaProvider p = Some mp \<and> Server_init c (Some mp) = Inr s \<longrightarrow>
      Process c h t p =
        (if progressInterval p \<le> t - l
         then (p\<lparr>lastProgressReport := Some (host_now h)\<rparr>,
               (if fst (Authenticate c s)
                then [Http (PostAsJson
                        (getBasePath mp @ ''/'' @ EMBY_PROTOCOL c @ ''/Sessions/Playing/Progress'')
                        (PrepareApiCallHeaders
                           (authAccessToken c (srv_authenticator (snd (Authenticate c s))))
                           (authUserId c (srv_authenticator (snd (Authenticate c s))))
                           (srv_devideId s))
                        (JObj
                          ([(''ItemId'', case itemId p of None \<Rightarrow> JNull | Some i \<Rightarrow> JStr i),
                            (''PlaySessionId'',
                               case playSessionId p of None \<Rightarrow> JNull | Some i \<Rightarrow> JStr i),
                            (''PlaylistIndex'', JNum 0),
                            (''PlaylistLength'', JNum 1),
                            (''QueueableMediaTypes'', JStr ''Audio,Video''),
                            (''CanSeek'', JBool True),
                            (''PlayMethod'', JStr ''DirectStream''),
                            (''IsPaused'', JBool (paused p))]
                           @ (case host_ticks h of
                                None \<Rightarrow> []
                              | Some (pos, dur) \<Rightarrow>
                                  [(''PositionTicks'', JNum pos), (''RunTimeTicks'', JNum dur)])
                           @ [(''EventName'', JStr ''TimeUpdate'')])))]
                else [Log None (''user authentication failed on media provider ''
                                @ getIdentifier mp)]),
               None)
         else (p, [], None))
      \<and> (\<exists>st. getSettings mp = Some st \<and> srv_devideId s = set_deviceId st))
   \<and> (lastProgressReport p = Some l \<and> l \<noteq> 0 \<and> item p \<noteq> None
        \<and> Server_init c (mediaProvider p) = Inl e \<longrightarrow>
        Process c h t p
          = (if progressInterval p \<le> t - l then (p, [], Some e) else (p, [], None)))
   \<and> (lastProgressReport p = None \<or> lastProgressReport p = Some 0 \<or> item p = None \<longrightarrow>
        Process c h t p = (p, [], None))
   \<and> progressInterval (Player_init None) = 10"
proof (intro conjI impI)
  assume a: "lastProgressReport p = Some l \<and> l \<noteq> 0 \<and> item p \<noteq> None
      \<and> mediaProvider p = Some mp \<and> Server_init c (Some mp) = Inr s"
  then have s: "Server_init c (mediaProvider p) = Inr s" "Server_init c (Some mp) = Inr s"
    by simp_all
  have r: "reportPlaybackProgress c h PLAYING_PROGRESS_EVENT_TIME_UPDATE p =
           (p\<lparr>lastProgressReport := Some (host_now h)\<rparr>,
            fst (snd (ApiPost c s (BuildSessionsPlayingProgressUrl s)
                        (JObj (preparePlayingData h False (Some PLAYING_PROGRESS_EVENT_TIME_UPDATE) False p)))),
            None)"
    using a s(1) by (simp add: reportPlaybackProgress_matched)
  have u: "BuildSessionsPlayingProgressUrl s
             = getBasePath mp @ ''/'' @ EMBY_PROTOCOL c @ ''/Sessions/Playing/Progress''"
    by (simp add: progress_url Server_init_fields(1) [OF s(2)])
  have hd: "api_headers c (snd (Authenticate c s))
             = PrepareApiCallHeaders
                 (authAccessToken c (srv_authenticator (snd (Authenticate c s))))
                 (authUserId c (srv_authenticator (snd (Authenticate c s))))
                 (srv_devideId s)"
    by (simp add: api_headers_def AccessToken_def UserId_def Authenticate_keeps)
  from a show "Process c h t p =
        (if progressInterval p \<le> t - l
         then (p\<lparr>lastProgressReport := Some (host_now h)\<rparr>,
               (if fst (Authenticate c s)
                then [Http (PostAsJson
                        (getBasePath mp @ ''/'' @ EMBY_PROTOCOL c @ ''/Sessions/Playing/Progress'')
                        (PrepareApiCallHeaders
                           (authAccessToken c (srv_authenticator (snd (Authenticate c s))))
                           (authUserId c (srv_authenticator (snd (Authenticate c s))))
                           (srv_devideId s))
                        (JObj
                          ([(''ItemId'', case itemId p of None \<Rightarrow> JNull | Some i \<Rightarrow> JStr i),
                            (''PlaySessionId'',
                               case playSessionId p of None \<Rightarrow> JNull | Some i \<Rightarrow> JStr i),
                            (''PlaylistIndex'', JNum 0),
                            (''PlaylistLength'', JNum 1),
                            (''QueueableMediaTypes'', JStr ''Audio,Video''),
                            (''CanSeek'', JBool True),
                            (''PlayMethod'', JStr ''DirectStream''),
                            (''IsPaused'', JBool (paused p))]
                           @ (case host_ticks h of
                                None \<Rightarrow> []
                              | Some (pos, dur) \<Rightarrow>
                                  [(''PositionTicks'', JNum pos), (''RunTimeTicks'', JNum dur)])
                           @ [(''EventName'', JStr ''TimeUpdate'')])))]
                else [Log None (''user authentication failed on media provider ''
                                @ getIdentifier mp)]),
               None)
         else (p, [], None))"
    by (simp only: Process_def r ApiPost_effects u hd TimeUpdate_payload
        Server_init_fields(2) [OF s(2)])
       (simp add: not_less)
  show "\<exists>st. getSettings mp = Some st \<and> srv_devideId s = set_deviceId st"
    by (rule Server_init_fields(3) [OF s(2)])
next
  assume a: "lastProgressReport p = Some l \<and> l \<noteq> 0 \<and> item p \<noteq> None
        \<and> Server_init c (mediaProvider p) = Inl e"
  then have "reportPlaybackProgress c h PLAYING_PROGRESS_EVENT_TIME_UPDATE p = (p, [], Some e)"
    by (auto simp: reportPlaybackProgress_def Let_def)
  with a show "Process c h t p
          = (if progressInterval p \<le> t - l then (p, [], Some e) else (p, [], None))"
    by (simp add: Process_def not_less)
next
  assume "lastProgressReport p = None \<or> lastProgressReport p = Some 0 \<or> item p = None"
  then show "Process c h t p = (p, [], None)"
    by (auto simp: Process_def reportPlaybackProgress_unmatched split: option.splits)
next
  show "progressInterval (Player_init None) = 10"
    by (simp add: Player_init_def)
qed

section \<open>Player: evaluation on the concrete inputs\<close>

lemmas player_defs =
  AddProvider_def onPlayBackStarted_def onAVStarted_def startPlayback_def
  reset_def Player_init_def matchingItems_def getUniqueID_def preparePlayingData_def
  Server_init_def ApiPost_eq BuildSessionsPlayingUrl_def Url_append_def Authenticate_def
  api_headers_def AccessToken_def UserId_def

lemma example_playing_accepted:
  "example_playing example_provider =
     \<lparr>progressInterval = 10, lastProgressReport = Some 100,
      providers = [(''emby://srv/'', example_provider)],
      file' = Some ''http://host:8096/emby/Videos/abc123/stream.mkv?static=true'',
      item = Some example_item, itemId = Some ''abc123'',
      mediaProvider = Some example_provider,
      playSessionId = Some ''123e4567e89b42d3a456426614174000'', paused = False\<rparr>"
  by (simp add: example_playing_def player_defs example_collaborators_def example_host_def
      example_provider_def example_item_def Let_def)

lemma example_playing_rejected:
  "example_playing example_provider_rejected =
     \<lparr>progressInterval = 10, lastProgressReport = Some 100,
      providers = [(''emby://srv/'', example_provider_rejected)],
      file' = Some ''http://host:8096/emby/Videos/abc123/stream.mkv?static=true'',
      item = Some example_item, itemId = Some ''abc123'',
      mediaProvider = Some example_provider_rejected,
      playSessionId = Some ''123e4567e89b42d3a456426614174000'', paused = False\<rparr>"
  by (simp add: example_playing_def player_defs example_collaborators_def example_host_def
      example_provider_rejected_def example_item_def Let_def)

lemma Server_init_example:
  "Server_init example_collaborators (Some example_provider) = Inr example_server"
  by (simp add: Server_init_def example_collaborators_def example_provider_def
      example_server_def Url_append_def)

lemma Server_init_example_rejected:
  "Server_init example_collaborators (Some example_provider_rejected) = Inr example_server_rejected"
  by (simp add: Server_init_def example_collaborators_def example_provider_rejected_def
      example_server_def example_server_rejected_def Url_append_def)

lemma example_authenticate:
  "Authenticate example_collaborators example_server
     = (True, example_server\<lparr>srv_authenticator := (True, True)\<rparr>)"
  "Authenticate example_collaborators example_server_rejected = (False, example_server_rejected)"
  by (simp_all add: Authenticate_def example_collaborators_def example_server_def
      example_server_rejected_def)

section \<open>Player: the progress interval\<close>

lemma example_playing_without_settings_eq:
  "example_playing_without_settings =
     \<lparr>progressInterval = 10, lastProgressReport = Some 100,
      providers = [(''emby://srv/'', example_provider_without_settings)],
      file' = Some ''http://host:8096/emby/Videos/abc123/stream.mkv?static=true'',
      item = Some example_item, itemId = Some ''abc123'',
      mediaProvider = Some example_provider_without_settings,
      playSessionId = Some ''123e4567e89b42d3a456426614174000'', paused = False\<rparr>"
  by (simp add: example_playing_without_settings_def player_defs onPlayBackStopped_def
      stopPlayback_def BuildSessionsPlayingStoppedUrl_def URL_SESSIONS_def
      URL_SESSIONS_PLAYING_def URL_SESSIONS_PLAYING_STOPPED_def
      example_collaborators_def example_host_def
      example_provider_def example_provider_without_settings_def example_item_def Let_def)

lemma Server_init_example_without_settings:
  "Server_init example_collaborators (Some example_provider_without_settings)
     = Inl (ValueError ''Invalid provider without settings'')"
  by (simp add: Server_init_def example_provider_without_settings_def Let_def)

theorem Process_interval_witness:
  "lastProgressReport (example_playing example_provider) = Some 100
   \<and> item (example_playing example_provider) \<noteq> None
   \<and> Process example_collaborators (example_host\<lparr>host_now := 110\<rparr>) 110
        (example_playing example_provider)
      = ((example_playing example_provider)\<lparr>lastProgressReport := Some 110\<rparr>,
         [Http (PostAsJson ''http://host:8096/emby/Sessions/Playing/Progress''
                  (PrepareApiCallHeaders ''token'' ''uid'' ''dev'')
                  (JObj [(''ItemId'', JStr ''abc123''),
                         (''PlaySessionId'', JStr ''123e4567e89b42d3a456426614174000''),
                         (''PlaylistIndex'', JNum 0), (''PlaylistLength'', JNum 1),
                         (''QueueableMediaTypes'', JStr ''Audio,Video''),
                         (''CanSeek'', JBool True), (''PlayMethod'', JStr ''DirectStream''),
                         (''IsPaused'', JBool False), (''PositionTicks'', JNum 15000000),
                         (''RunTimeTicks'', JNum 600000000),
                         (''EventName'', JStr ''TimeUpdate'')]))],
         None)
   \<and> Process example_collaborators (example_host\<lparr>host_now := 109\<rparr>) 109
        (example_playing example_provider)
      = (example_playing example_provider, [], None)
   \<and> Process example_collaborators example_host 110 example_playing_without_settings
      = (example_playing_without_settings, [],
         Some (ValueError ''Invalid provider without settings''))
   \<and> Process example_collaborators example_host 110 (Player_init None)
      = (Player_init None, [], None)"
proof -
  let ?p = "example_playing example_provider"
  let ?q = "example_playing_without_settings"
  have h: "lastProgressReport ?p = Some 100 \<and> (100::real) \<noteq> 0 \<and> item ?p \<noteq> None
      \<and> mediaProvider ?p = Some example_provider
      \<and> Server_init example_collaborators (Some example_provider) = Inr example_server"
    by (simp add: example_playing_accepted Server_init_example)
  have i: "progressInterval ?p = 10" "itemId ?p = Some ''abc123''"
    "playSessionId ?p = Some ''123e4567e89b42d3a456426614174000''" "paused ?p = False"
    by (simp_all add: example_playing_accepted)
  have k: "getBasePath example_provider = ''http://host:8096''"
    "EMBY_PROTOCOL example_collaborators = ''emby''"
    "srv_devideId example_server = ''dev''"
    "authAccessToken example_collaborators (True, True) = ''token''"
    "authUserId example_collaborators (True, True) = ''uid''"
    by (simp_all add: example_provider_def example_collaborators_def example_server_def)
  have t: "host_ticks (example_host\<lparr>host_now := 110\<rparr>) = Some (15000000, 600000000)"
    "host_now (example_host\<lparr>host_now := 110\<rparr>) = 110"
    by (simp_all add: example_host_def)
  have g: "lastProgressReport ?q = Some 100 \<and> (100::real) \<noteq> 0 \<and> item ?q \<noteq> None
      \<and> Server_init example_collaborators (mediaProvider ?q)
          = Inl (ValueError ''Invalid provider without settings'')"
    by (simp add: example_playing_without_settings_eq Server_init_example_without_settings)
  have j: "progressInterval ?q = 10"
    by (simp add: example_playing_without_settings_eq)
  have n: "lastProgressReport (Player_init None) = None"
    by (simp add: Player_init_def)
  from Process_interval [of ?p 100 example_provider example_collaborators example_server
              "example_host\<lparr>host_now := 110\<rparr>" 110] h
  have due: "Process example_collaborators (example_host\<lparr>host_now := 110\<rparr>) 110 ?p
      = (?p\<lparr>lastProgressReport := Some 110\<rparr>,
         [Http (PostAsJson ''http://host:8096/emby/Sessions/Playing/Progress''
                  (PrepareApiCallHeaders ''token'' ''uid'' ''dev'')
                  (JObj [(''ItemId'', JStr ''abc123''),
                         (''PlaySessionId'', JStr ''123e4567e89b42d3a456426614174000''),
                         (''PlaylistIndex'', JNum 0), (''PlaylistLength'', JNum 1),
                         (''QueueableMediaTypes'', JStr ''Audio,Video''),
                         (''CanSeek'', JBool True), (''PlayMethod'', JStr ''DirectStream''),
                         (''IsPaused'', JBool False), (''PositionTicks'', JNum 15000000),
                         (''RunTimeTicks'', JNum 600000000),
                         (''EventName'', JStr ''TimeUpdate'')]))],
         None)"
    by (simp add: i k t example_authenticate)
  from Process_interval [of ?p 100 example_provider example_collaborators example_server
              "example_host\<lparr>host_now := 109\<rparr>" 109] h
  have early: "Process example_collaborators (example_host\<lparr>host_now := 109\<rparr>) 109 ?p
      = (?p, [], None)"
    by (simp add: i)
  from Process_interval [where p = ?q and l = 100 and c = example_collaborators
              and e = "ValueError ''Invalid provider without settings''"
              and h = example_host and t = 110] g
  have raised: "Process example_collaborators example_host 110 ?q
      = (?q, [], Some (ValueError ''Invalid provider without settings''))"
    by (simp add: j)
  from Process_interval [where p = "Player_init None" and c = example_collaborators
              and h = example_host and t = 110] n
  have idle: "Process example_collaborators example_host 110 (Player_init None)
      = (Player_init None, [], None)"
    by simp
  from h due early raised idle show ?thesis
    by simp
qed

text \<open>
  Two players with a recorded timestamp of 100 and a matched item, and a \<^verbatim>\<open>Process\<close>
  call 50 seconds later. With a provider that rejects the authentication nothing is
  sent, although the timestamp is set; with a provider without settings the call ends
  with \<^verbatim>\<open>ValueError\<close>, sends nothing and leaves the timestamp at 100.
\<close>

theorem Process_due_without_report_counterexample:
  "lastProgressReport (example_playing example_provider_rejected) = Some 100
   \<and> item (example_playing example_provider_rejected) \<noteq> None
   \<and> progressInterval (example_playing example_provider_rejected) \<le> 150 - 100
   \<and> Process example_collaborators (example_host\<lparr>host_now := 150\<rparr>) 150
        (example_playing example_provider_rejected)
      = ((example_playing example_provider_rejected)\<lparr>lastProgressReport := Some 150\<rparr>,
         [Log None ''user authentication failed on media provider emby://srv/''], None)
   \<and> lastProgressReport example_playing_without_settings = Some 100
   \<and> item example_playing_without_settings \<noteq> None
   \<and> progressInterval example_playing_without_settings \<le> 150 - 100
   \<and> Process example_collaborators (example_host\<lparr>host_now := 150\<rparr>) 150
        example_playing_without_settings
      = (example_playing_without_settings, [],
         Some (ValueError ''Invalid provider without settings''))"
proof -
  let ?p = "example_playing example_provider_rejected"
  let ?q = "example_playing_without_settings"
  have i: "srv_id example_server_rejected = ''emby://srv/''"
    by (simp add: example_server_rejected_def example_server_def)
  have l: "lastProgressReport ?p = Some 100" "progressInterval ?p = 10" "item ?p \<noteq> None"
    by (simp_all add: example_playing_rejected)
  have r: "reportPlaybackProgress example_collaborators (example_host\<lparr>host_now := 150\<rparr>)
             PLAYING_PROGRESS_EVENT_TIME_UPDATE ?p
           = (?p\<lparr>lastProgressReport := Some 150\<rparr>,
              [Log None ''user authentication failed on media provider emby://srv/''], None)"
    by (simp add: reportPlaybackProgress_matched [where s = example_server_rejected]
        example_playing_rejected Server_init_example_rejected ApiPost_effects
        example_authenticate i)
  have pr: "Process example_collaborators (example_host\<lparr>host_now := 150\<rparr>) 150 ?p
           = (?p\<lparr>lastProgressReport := Some 150\<rparr>,
              [Log None ''user authentication failed on media provider emby://srv/''], None)"
    by (simp add: Process_def l r)
  have m: "lastProgressReport ?q = Some 100" "progressInterval ?q = 10" "item ?q \<noteq> None"
    by (simp_all add: example_playing_without_settings_eq)
  have rq: "reportPlaybackProgress example_collaborators (example_host\<lparr>host_now := 150\<rparr>)
             PLAYING_PROGRESS_EVENT_TIME_UPDATE ?q
           = (?q, [], Some (ValueError ''Invalid provider without settings''))"
    using m(3)
    by (simp add: reportPlaybackProgress_def Let_def)
       (simp add: example_playing_without_settings_eq Server_init_example_without_settings)
  have pq: "Process example_collaborators (example_host\<lparr>host_now := 150\<rparr>) 150 ?q
           = (?q, [], Some (ValueError ''Invalid provider without settings''))"
    by (simp add: Process_def m rq)
  show ?thesis
    by (simp add: l pr m pq)
qed

section \<open>Player: a report whose remote call fails\<close>

text \<open>
  C7, as amended. When a progress report is made for a matched session and the server's
  authentication fails, \<^verbatim>\<open>ApiPost\<close> returns \<^verbatim>\<open>False\<close>, the only effect is the one
  log line of the failed authentication (no second attempt), and every field of the
  player keeps its value except the last-report timestamp, which is set to the current
  clock reading exactly as after a successful call. This holds for the report of a seek
  and for the report of a due \<^verbatim>\<open>Process\<close> call.
\<close>

theorem failed_report_refreshes_timestamp:
  "item p \<noteq> None \<and> Server_init c (mediaProvider p) = Inr s \<and> \<not> fst (Authenticate c s) \<longrightarrow>
     fst (ApiPost c s (BuildSessionsPlayingProgressUrl s)
            (JObj (preparePlayingData h False (Some ev) False p))) = JBool False
     \<and> reportPlaybackProgress c h ev p =
         (p\<lparr>lastProgressReport := Some (host_now h)\<rparr>,
          [Log None (''user authentication failed on media provider '' @ srv_id s)], None)
     \<and> onPlayBackSeek c h p =
         (p\<lparr>lastProgressReport := Some (host_now h)\<rparr>,
          [Log None (''user authentication failed on media provider '' @ srv_id s)], None)
     \<and> (\<forall>l. lastProgressReport p = Some l \<and> l \<noteq> 0 \<and> progressInterval p \<le> t - l \<longrightarrow>
          Process c h t p =
            (p\<lparr>lastProgressReport := Some (host_now h)\<rparr>,
             [Log None (''user authentication failed on media provider '' @ srv_id s)], None))"
  by (auto simp: reportPlaybackProgress_matched ApiPost_effects ApiPost_eq onPlayBackSeek_def
      Process_def)

theorem failed_report_refreshes_timestamp_witness:
  "item (example_playing example_provider_rejected) \<noteq> None
   \<and> \<not> fst (Authenticate example_collaborators example_server_rejected)
   \<and> onPlayBackSeek example_collaborators (example_host\<lparr>host_now := 103\<rparr>)
        (example_playing example_provider_rejected)
      = ((example_playing example_provider_rejected)\<lparr>lastProgressReport := Some 103\<rparr>,
         [Log None ''user authentication failed on media provider emby://srv/''], None)"
proof -
  let ?p = "example_playing example_provider_rejected"
  have h: "item ?p \<noteq> None
      \<and> Server_init example_collaborators (mediaProvider ?p) = Inr example_server_rejected
      \<and> \<not> fst (Authenticate example_collaborators example_server_rejected)"
    by (simp add: example_playing_rejected Server_init_example_rejected example_authenticate)
  have i: "srv_id example_server_rejected = ''emby://srv/''"
    by (simp add: example_server_rejected_def example_server_def)
  show ?thesis
    using failed_report_refreshes_timestamp
            [of ?p example_collaborators example_server_rejected
                "example_host\<lparr>host_now := 103\<rparr>"]
          h i
    by simp
qed

text \<open>
  The matched provider rejects the authentication. The timestamp is 100 before a due
  \<^verbatim>\<open>Process\<close> call at clock reading 110; the call of \<^verbatim>\<open>ApiPost\<close> returns
  \<^verbatim>\<open>False\<close>, and the timestamp is 110 afterwards.
\<close>

theorem failed_report_counterexample:
  "lastProgressReport (example_playing example_provider_rejected) = Some 100
   \<and> fst (ApiPost example_collaborators example_server_rejected
            (BuildSessionsPlayingProgressUrl example_server_rejected)
            (JObj (preparePlayingData (example_host\<lparr>host_now := 110\<rparr>) False
                     (Some PLAYING_PROGRESS_EVENT_TIME_UPDATE) False
                     (example_playing example_provider_rejected)))) = JBool False
   \<and> Process example_collaborators (example_host\<lparr>host_now := 110\<rparr>) 110
        (example_playing example_provider_rejected)
      = ((example_playing example_provider_rejected)\<lparr>lastProgressReport := Some 110\<rparr>,
         [Log None ''user authentication failed on media provider emby://srv/''], None)
   \<and> lastProgressReport (fst (Process example_collaborators (example_host\<lparr>host_now := 110\<rparr>) 110
        (example_playing example_provider_rejected))) \<noteq> Some 100"
proof -
  let ?p = "example_playing example_provider_rejected"
  have i: "srv_id example_server_rejected = ''emby://srv/''"
    by (simp add: example_server_rejected_def example_server_def)
  have a: "fst (ApiPost example_collaborators example_server_rejected u d) = JBool False" for u d
    by (simp add: ApiPost_eq example_authenticate)
  have r: "reportPlaybackProgress example_collaborators (example_host\<lparr>host_now := 110\<rparr>)
             PLAYING_PROGRESS_EVENT_TIME_UPDATE ?p
           = (?p\<lparr>lastProgressReport := Some 110\<rparr>,
              [Log None ''user authentication failed on media provider emby://srv/''], None)"
    by (simp add: reportPlaybackProgress_matched [where s = example_server_rejected]
        example_playing_rejected Server_init_example_rejected ApiPost_effects example_authenticate i)
  have l: "lastProgressReport ?p = Some 100" "progressInterval ?p = 10"
    by (simp_all add: example_playing_rejected)
  have pr: "Process example_collaborators (example_host\<lparr>host_now := 110\<rparr>) 110 ?p
           = (?p\<lparr>lastProgressReport := Some 110\<rparr>,
              [Log None ''user authentication failed on media provider emby://srv/''], None)"
    by (simp add: Process_def l r)
  show ?thesis
    by (simp add: a pr l)
qed

section \<open>Player: stopping\<close>

text \<open>
  C2, as amended. After \<^verbatim>\<open>onPlayBackStopped\<close>, \<^verbatim>\<open>onPlayBackEnded\<close> or
  \<^verbatim>\<open>onPlayBackError\<close> on a player with a matched item whose provider a \<^verbatim>\<open>Server\<close>
  can be built for, the file path, the matched item, the item id, the media provider and
  the play session id are unset again and the pause flag is false; the timestamp of the
  last progress report, the progress interval and the registry keep their values.
\<close>

theorem stop_clears_session:
  "item p \<noteq> None \<and> Server_init c (mediaProvider p) = Inr s \<longrightarrow>
     fst (onPlayBackStopped c h p) = reset p
     \<and> fst (onPlayBackEnded c h p) = reset p
     \<and> fst (onPlayBackError c h p) = reset p
     \<and> file' (reset p) = None \<and> item (reset p) = None \<and> itemId (reset p) = None
     \<and> mediaProvider (reset p) = None \<and> playSessionId (reset p) = None
     \<and> paused (reset p) = False
     \<and> lastProgressReport (reset p) = lastProgressReport p
     \<and> progressInterval (reset p) = progressInterval p
     \<and> providers (reset p) = providers p"
  by (simp add: onPlayBackStopped_def onPlayBackEnded_def onPlayBackError_def
      stopPlayback_matched reset_def)

theorem stop_clears_session_witness:
  "item (example_playing example_provider) \<noteq> None
   \<and> fst (onPlayBackStopped example_collaborators example_host (example_playing example_provider))
      = \<lparr>progressInterval = 10, lastProgressReport = Some 100,
         providers = [(''emby://srv/'', example_provider)],
         file' = None, item = None, itemId = None, mediaProvider = None,
         playSessionId = None, paused = False\<rparr>"
proof -
  let ?p = "example_playing example_provider"
  have h: "item ?p \<noteq> None
      \<and> Server_init example_collaborators (mediaProvider ?p) = Inr example_server"
    by (simp add: example_playing_accepted Server_init_example)
  have r: "reset ?p = \<lparr>progressInterval = 10, lastProgressReport = Some 100,
         providers = [(''emby://srv/'', example_provider)],
         file' = None, item = None, itemId = None, mediaProvider = None,
         playSessionId = None, paused = False\<rparr>"
    by (simp add: example_playing_accepted reset_def)
  show ?thesis
    using stop_clears_session [of ?p example_collaborators example_server example_host] h
    by (simp add: r)
qed

text \<open>
  After a stop of the matched session the timestamp of the last progress report is still
  the one recorded at the start, not the initial \<^verbatim>\<open>None\<close>.
\<close>

theorem stop_keeps_timestamp_counterexample:
  "item (example_playing example_provider) \<noteq> None
   \<and> lastProgressReport (Player_init None) = None
   \<and> lastProgressReport
       (fst (onPlayBackStopped example_collaborators example_host (example_playing example_provider)))
      = Some 100"
proof -
  let ?p = "example_playing example_provider"
  have h: "item ?p \<noteq> None" "Server_init example_collaborators (mediaProvider ?p) = Inr example_server"
    by (simp_all add: example_playing_accepted Server_init_example)
  have "fst (onPlayBackStopped example_collaborators example_host ?p) = reset ?p"
    using h by (simp add: onPlayBackStopped_def stopPlayback_matched)
  moreover have "lastProgressReport (reset ?p) = Some 100"
    by (simp add: reset_def example_playing_accepted)
  ultimately show ?thesis
    using h by (simp add: Player_init_def)
qed

section \<open>Player: reports to the Stopped endpoint\<close>

lemma not_suffix_last:
  assumes "a \<noteq> []" "b \<noteq> []" "last a \<noteq> last b"
  shows "\<not> suffix a (x @ b)"
proof
  assume "suffix a (x @ b)"
  then obtain zs where "x @ b = zs @ a" by (auto simp: suffix_def)
  then have "last (x @ b) = last (zs @ a)" by simp
  with assms show False by simp
qed

lemma playing_url_not_stopped:
  "\<not> suffix ''/Sessions/Playing/Stopped'' (BuildSessionsPlayingUrl s)"
  unfolding playing_url by (rule not_suffix_last) simp_all

lemma progress_url_not_stopped:
  "\<not> suffix ''/Sessions/Playing/Stopped'' (BuildSessionsPlayingProgressUrl s)"
  unfolding progress_url by (rule not_suffix_last) simp_all

lemma ApiPost_not_stopped:
  assumes "\<not> suffix ''/Sessions/Playing/Stopped'' url"
    and "e \<in> set (fst (snd (ApiPost c s url data)))"
  shows "\<not> isStoppedPost e"
  using assms by (auto simp: ApiPost_effects split: if_splits)

lemma matchProviders_logs:
  "e \<in> set (snd (matchProviders key h p mps)) \<Longrightarrow> \<not> isStoppedPost e"
  by (induction mps) (auto split: list.splits if_splits)

lemma reportPlaybackProgress_not_stopped:
  "e \<in> set (fst (snd (reportPlaybackProgress c h ev p))) \<Longrightarrow> \<not> isStoppedPost e"
  using ApiPost_not_stopped [OF progress_url_not_stopped]
  by (fastforce simp: reportPlaybackProgress_def Let_def case_prod_beta
      split: if_splits sum.splits)

lemma stopPlayback_unmatched_effects:
  "e \<in> set (fst (snd (stopPlayback c h failed p))) \<Longrightarrow> item p \<noteq> None"
  by (cases "item p") (simp_all add: stopPlayback_def)

lemma startPlayback_not_stopped:
  "e \<in> set (fst (snd (startPlayback c h p))) \<Longrightarrow> \<not> isStoppedPost e"
  using ApiPost_not_stopped [OF playing_url_not_stopped] matchProviders_logs
  by (fastforce simp: startPlayback_def Let_def case_prod_beta
      split: if_splits sum.splits option.splits)

text \<open>
  C10. Whatever the state of the player, a call that sends a POST to the Stopped endpoint
  is \<^verbatim>\<open>onPlayBackStopped\<close>, \<^verbatim>\<open>onPlayBackEnded\<close> or \<^verbatim>\<open>onPlayBackError\<close>, made while an
  item is matched. \<^verbatim>\<open>onPlayBackStarted\<close> has no effect outside the player at all: it
  resets the session fields, so an active session is dropped without a report, and
  records the playing file.
\<close>

theorem stopped_post_only_from_stop:
  "(e \<in> set (fst (snd (step c (h, ev) p))) \<and> isStoppedPost e \<longrightarrow>
      (ev = EvPlayBackStopped \<or> ev = EvPlayBackEnded \<or> ev = EvPlayBackError) \<and> item p \<noteq> None)
   \<and> step c (h, EvPlayBackStarted) p = ((reset p)\<lparr>file' := Some (host_playingFile h)\<rparr>, [], None)
   \<and> item (fst (step c (h, EvPlayBackStarted) p)) = None
   \<and> itemId (fst (step c (h, EvPlayBackStarted) p)) = None
   \<and> mediaProvider (fst (step c (h, EvPlayBackStarted) p)) = None
   \<and> playSessionId (fst (step c (h, EvPlayBackStarted) p)) = None"
proof -
  have "(ev = EvPlayBackStopped \<or> ev = EvPlayBackEnded \<or> ev = EvPlayBackError) \<and> item p \<noteq> None"
    if "e \<in> set (fst (snd (step c (h, ev) p)))" "isStoppedPost e"
    using that
    by (cases ev)
      (auto simp: AddProvider_def RemoveProvider_def Process_def onPlayBackStarted_def
        onAVStarted_def onPlayBackSeek_def onPlayBackSeekChapter_def onPlayBackPaused_def
        onPlayBackResumed_def onPlayBackStopped_def onPlayBackEnded_def onPlayBackError_def
        split: option.splits if_splits
        dest: reportPlaybackProgress_not_stopped startPlayback_not_stopped
          stopPlayback_unmatched_effects)
  then show ?thesis
    by (auto simp: onPlayBackStarted_def reset_def)
qed

theorem stopped_post_only_from_stop_witness:
  "Http (PostAsJson ''http://host:8096/emby/Sessions/Playing/Stopped''
           (PrepareApiCallHeaders ''token'' ''uid'' ''dev'')
           (JObj [(''ItemId'', JStr ''abc123''),
                  (''PlaySessionId'', JStr ''123e4567e89b42d3a456426614174000''),
                  (''PlaylistIndex'', JNum 0), (''PlaylistLength'', JNum 1),
                  (''Failed'', JBool True)]))
     \<in> set (fst (snd (step example_collaborators (example_host, EvPlayBackError)
                        (example_playing example_provider))))
   \<and> item (example_playing example_provider) \<noteq> None
   \<and> fst (snd (step example_collaborators (example_host, EvPlayBackStarted)
                  (example_playing example_provider))) = []"
proof -
  let ?p = "example_playing example_provider"
  let ?e = "Http (PostAsJson ''http://host:8096/emby/Sessions/Playing/Stopped''
           (PrepareApiCallHeaders ''token'' ''uid'' ''dev'')
           (JObj [(''ItemId'', JStr ''abc123''),
                  (''PlaySessionId'', JStr ''123e4567e89b42d3a456426614174000''),
                  (''PlaylistIndex'', JNum 0), (''PlaylistLength'', JNum 1),
                  (''Failed'', JBool True)]))"
  have h: "item ?p \<noteq> None" "Server_init example_collaborators (mediaProvider ?p) = Inr example_server"
    by (simp_all add: example_playing_accepted Server_init_example)
  have d: "preparePlayingData example_host True None True ?p
            = [(''ItemId'', JStr ''abc123''),
               (''PlaySessionId'', JStr ''123e4567e89b42d3a456426614174000''),
               (''PlaylistIndex'', JNum 0), (''PlaylistLength'', JNum 1),
               (''Failed'', JBool True)]"
    by (simp add: preparePlayingData_def example_playing_accepted json_of_str_def)
  have u: "BuildSessionsPlayingStoppedUrl example_server = ''http://host:8096/emby/Sessions/Playing/Stopped''"
    by (simp add: stopped_url example_server_def)
  have a: "api_headers example_collaborators (example_server\<lparr>srv_authenticator := (True, True)\<rparr>)
             = PrepareApiCallHeaders ''token'' ''uid'' ''dev''"
    by (simp add: api_headers_def AccessToken_def UserId_def example_collaborators_def
        example_server_def)
  have s: "fst (snd (step example_collaborators (example_host, EvPlayBackError) ?p)) = [?e]"
    by (simp add: onPlayBackError_def stopPlayback_matched [OF h] ApiPost_effects
        example_authenticate d u a)
  have m: "?e \<in> set (fst (snd (step example_collaborators (example_host, EvPlayBackError) ?p)))
           \<and> isStoppedPost ?e"
    by (simp only: s) (simp add: suffix_to_prefix)
  show ?thesis
    using stopped_post_only_from_stop
            [of ?e example_collaborators example_host EvPlayBackError ?p] m h
    by simp
qed

section \<open>Player: the fields of a session\<close>

lemma matchProviders_cases:
  "fst (matchProviders key h p mps) = p
   \<or> (\<exists>m mp. fst (matchProviders key h p mps) = p\<lparr>item := Some m, mediaProvider := Some mp\<rparr>)"
  by (induction mps) (auto split: list.splits)

lemma matchProviders_none:
  "\<forall>mp \<in> set mps. matchingItems key h p mp = [] \<Longrightarrow> matchProviders key h p mps = (p, [])"
  by (induction mps) auto

lemma sessionFields_startPlayback:
  assumes "sessionFields p"
  shows "sessionFields (fst (startPlayback c h p))"
proof (cases "file' p = None \<or> file' p = Some [] \<or> \<not> host_isPlayingVideo h \<or> host_videoInfoTag h = None")
  case True
  with assms show ?thesis
    by (auto simp: startPlayback_def)
next
  case False
  then obtain tag where tag: "host_videoInfoTag h = Some tag" by auto
  let ?p1 = "p\<lparr>itemId := Some (getUniqueID tag (EMBY_PROTOCOL c))\<rparr>"
  let ?p2 = "fst (matchProviders (EMBY_PROTOCOL c) h ?p1 (map snd (providers ?p1)))"
  have p2: "?p2 = ?p1 \<or> (\<exists>m mp. ?p2 = ?p1\<lparr>item := Some m, mediaProvider := Some mp\<rparr>)"
    by (rule matchProviders_cases)
  from False tag assms p2 show ?thesis
    by (auto simp: sessionFields_def sessionGroup_def itemIdAssigned_def startPlayback_def
        Let_def case_prod_beta split: sum.splits)
qed

lemma startPlayback_new_match:
  assumes "item p = None" and "item (fst (startPlayback c h p)) \<noteq> None"
  shows "\<exists>i. i \<noteq> [] \<and> itemId (fst (startPlayback c h p)) = Some i"
proof (cases "file' p = None \<or> file' p = Some [] \<or> \<not> host_isPlayingVideo h \<or> host_videoInfoTag h = None")
  case True
  with assms show ?thesis
    by (auto simp: startPlayback_def)
next
  case False
  then obtain tag where tag: "host_videoInfoTag h = Some tag" by auto
  let ?p1 = "p\<lparr>itemId := Some (getUniqueID tag (EMBY_PROTOCOL c))\<rparr>"
  let ?p2 = "fst (matchProviders (EMBY_PROTOCOL c) h ?p1 (map snd (providers ?p1)))"
  have p2: "?p2 = ?p1 \<or> (\<exists>m mp. ?p2 = ?p1\<lparr>item := Some m, mediaProvider := Some mp\<rparr>)"
    by (rule matchProviders_cases)
  from False tag assms p2 show ?thesis
    by (auto simp: startPlayback_def Let_def case_prod_beta split: sum.splits if_splits)
qed

lemma reportPlaybackProgress_fields:
  "item (fst (reportPlaybackProgress c h ev p)) = item p"
  "itemId (fst (reportPlaybackProgress c h ev p)) = itemId p"
  "mediaProvider (fst (reportPlaybackProgress c h ev p)) = mediaProvider p"
  "playSessionId (fst (reportPlaybackProgress c h ev p)) = playSessionId p"
  by (auto simp: reportPlaybackProgress_def Let_def case_prod_beta split: sum.splits)

lemma sessionFields_report:
  "sessionFields p \<Longrightarrow> sessionFields (fst (reportPlaybackProgress c h ev p))"
  by (auto simp: sessionFields_def sessionGroup_def itemIdAssigned_def
      reportPlaybackProgress_fields)

lemma sessionFields_reset: "sessionFields (reset p)"
  by (simp add: sessionFields_def sessionGroup_def itemIdAssigned_def reset_def)

lemma sessionFields_stopPlayback:
  "sessionFields p \<Longrightarrow> sessionFields (fst (stopPlayback c h failed p))"
  by (auto simp: stopPlayback_def Let_def case_prod_beta sessionFields_reset split: sum.splits)

lemma sessionFields_Process:
  "sessionFields p \<Longrightarrow> sessionFields (fst (Process c h t p))"
  by (auto simp: Process_def sessionFields_report split: option.splits)

lemma sessionFields_update:
  "sessionFields (p\<lparr>paused := b\<rparr>) = sessionFields p"
  "sessionFields (p\<lparr>providers := ps\<rparr>) = sessionFields p"
  "sessionFields (p\<lparr>file' := f\<rparr>) = sessionFields p"
  by (simp_all add: sessionFields_def sessionGroup_def itemIdAssigned_def)

lemma sessionFields_step:
  assumes "sessionFields p"
  shows "sessionFields (fst (step c e p))"
proof -
  obtain h ev where e: "e = (h, ev)" by (cases e)
  show ?thesis
    unfolding e using assms
    by (cases ev)
      (auto simp: AddProvider_def RemoveProvider_def onPlayBackStarted_def onAVStarted_def
        onPlayBackSeek_def onPlayBackSeekChapter_def onPlayBackPaused_def
        onPlayBackResumed_def onPlayBackStopped_def onPlayBackEnded_def onPlayBackError_def
        sessionFields_update sessionFields_reset sessionFields_report sessionFields_Process
        sessionFields_stopPlayback sessionFields_startPlayback
        split: option.splits)
qed

lemma sessionFields_run:
  "sessionFields p \<Longrightarrow> sessionFields (run c evs p)"
  by (induction evs arbitrary: p) (simp_all add: sessionFields_step)

lemma startPlayback_no_match:
  assumes "file' p \<noteq> None" "file' p \<noteq> Some []" "host_isPlayingVideo h"
    and "host_videoInfoTag h = Some tag" "getUniqueID tag (EMBY_PROTOCOL c) \<noteq> []"
    and "item p = None"
    and "\<forall>mp \<in> set (map snd (providers p)).
              matchingItems (EMBY_PROTOCOL c) h
                (p\<lparr>itemId := Some (getUniqueID tag (EMBY_PROTOCOL c))\<rparr>) mp = []"
  shows "startPlayback c h p = (p\<lparr>itemId := Some (getUniqueID tag (EMBY_PROTOCOL c))\<rparr>, [], None)"
proof -
  let ?p1 = "p\<lparr>itemId := Some (getUniqueID tag (EMBY_PROTOCOL c))\<rparr>"
  have m: "matchProviders (EMBY_PROTOCOL c) h ?p1 (map snd (providers p)) = (?p1, [])"
    using assms(7) by (intro matchProviders_none)
  have i: "item ?p1 = None" "itemId ?p1 \<noteq> Some []"
    using assms(5,6) by simp_all
  show ?thesis
    unfolding startPlayback_def Let_def
    using assms(1-4) i by (auto simp: m)
qed

text \<open>
  C1, as amended. After every sequence of calls on a new player the matched item, the
  media provider and the play session id are all assigned or all \<^verbatim>\<open>None\<close>
  (\<open>sessionGroup\<close>). The item id is not part of that group, in both directions. While
  the three are assigned it is not \<^verbatim>\<open>None\<close>, but it can be the empty string. When a
  call of \<^verbatim>\<open>onAVStarted\<close> on a player without a matched item finds a non-empty id for
  the playing video and no provider has a matching imported item, the call ends with the
  item id set to that id, the other three fields still \<^verbatim>\<open>None\<close> and no effect outside
  the player. When such a call does match an item, the item id it leaves is not empty.
\<close>

theorem session_group_invariant:
  "sessionGroup (run c evs (Player_init interval))
   \<and> (item (run c evs (Player_init interval)) \<noteq> None
        \<longrightarrow> itemId (run c evs (Player_init interval)) \<noteq> None)
   \<and> (item p = None \<and> mediaProvider p = None \<and> playSessionId p = None
        \<and> file' p \<noteq> None \<and> file' p \<noteq> Some [] \<and> host_isPlayingVideo h
        \<and> host_videoInfoTag h = Some tag \<and> getUniqueID tag (EMBY_PROTOCOL c) \<noteq> []
        \<and> (\<forall>mp \<in> set (map snd (providers p)).
              matchingItems (EMBY_PROTOCOL c) h
                (p\<lparr>itemId := Some (getUniqueID tag (EMBY_PROTOCOL c))\<rparr>) mp = [])
      \<longrightarrow> onAVStarted c h p
            = (p\<lparr>itemId := Some (getUniqueID tag (EMBY_PROTOCOL c))\<rparr>, [], None))
   \<and> (item p = None \<and> item (fst (onAVStarted c h p)) \<noteq> None
      \<longrightarrow> (\<exists>i. i \<noteq> [] \<and> itemId (fst (onAVStarted c h p)) = Some i))"
proof (intro conjI impI)
  have "sessionFields (Player_init interval)"
    by (simp add: sessionFields_def sessionGroup_def itemIdAssigned_def Player_init_def)
  then have f: "sessionFields (run c evs (Player_init interval))"
    by (rule sessionFields_run)
  then show "sessionGroup (run c evs (Player_init interval))"
    by (simp add: sessionFields_def)
  assume "item (run c evs (Player_init interval)) \<noteq> None"
  with f show "itemId (run c evs (Player_init interval)) \<noteq> None"
    by (simp add: sessionFields_def itemIdAssigned_def)
next
  assume "item p = None \<and> mediaProvider p = None \<and> playSessionId p = None
        \<and> file' p \<noteq> None \<and> file' p \<noteq> Some [] \<and> host_isPlayingVideo h
        \<and> host_videoInfoTag h = Some tag \<and> getUniqueID tag (EMBY_PROTOCOL c) \<noteq> []
        \<and> (\<forall>mp \<in> set (map snd (providers p)).
              matchingItems (EMBY_PROTOCOL c) h
                (p\<lparr>itemId := Some (getUniqueID tag (EMBY_PROTOCOL c))\<rparr>) mp = [])"
  then show "onAVStarted c h p
            = (p\<lparr>itemId := Some (getUniqueID tag (EMBY_PROTOCOL c))\<rparr>, [], None)"
    unfolding onAVStarted_def by (intro startPlayback_no_match) blast+
next
  assume "item p = None \<and> item (fst (onAVStarted c h p)) \<noteq> None"
  then show "\<exists>i. i \<noteq> [] \<and> itemId (fst (onAVStarted c h p)) = Some i"
    unfolding onAVStarted_def by (intro startPlayback_new_match) blast+
qed

lemma example_registered_eq:
  "run example_collaborators
     [(example_host, EvAddProvider (Some example_provider)), (example_host, EvPlayBackStarted)]
     (Player_init None)
   = \<lparr>progressInterval = 10, lastProgressReport = None,
      providers = [(''emby://srv/'', example_provider)],
      file' = Some ''http://host:8096/emby/Videos/abc123/stream.mkv?static=true'',
      item = None, itemId = None, mediaProvider = None, playSessionId = None,
      paused = False\<rparr>"
  by (simp add: player_defs example_host_def example_provider_def)

lemma example_replayed_eq:
  "run example_collaborators
     [(example_host, EvAddProvider (Some example_provider)),
      (example_host, EvPlayBackStarted),
      (example_host, EvAVStarted),
      (example_host_no_id, EvAVStarted)]
     (Player_init None)
   = \<lparr>progressInterval = 10, lastProgressReport = Some 100,
      providers = [(''emby://srv/'', example_provider)],
      file' = Some ''http://host:8096/emby/Videos/abc123/stream.mkv?static=true'',
      item = Some example_item, itemId = Some [],
      mediaProvider = Some example_provider,
      playSessionId = Some ''123e4567e89b42d3a456426614174000'', paused = False\<rparr>"
  by (simp add: player_defs example_collaborators_def example_host_def example_host_no_id_def
      example_provider_def example_item_def Let_def)

theorem session_group_invariant_witness:
  "sessionGroup (example_playing example_provider)
   \<and> item (example_playing example_provider) \<noteq> None
   \<and> itemId (example_playing example_provider) \<noteq> None
   \<and> item (run example_collaborators
              [(example_host, EvAddProvider (Some example_provider)),
               (example_host, EvPlayBackStarted),
               (example_host, EvAVStarted),
               (example_host_no_id, EvAVStarted)]
              (Player_init None)) = Some example_item
   \<and> itemId (run example_collaborators
              [(example_host, EvAddProvider (Some example_provider)),
               (example_host, EvPlayBackStarted),
               (example_host, EvAVStarted),
               (example_host_no_id, EvAVStarted)]
              (Player_init None)) = Some []
   \<and> onAVStarted example_collaborators example_host_unknown_video
        (run example_collaborators
           [(example_host, EvAddProvider (Some example_provider)),
            (example_host, EvPlayBackStarted)]
           (Player_init None))
      = ((run example_collaborators
            [(example_host, EvAddProvider (Some example_provider)),
             (example_host, EvPlayBackStarted)]
            (Player_init None))\<lparr>itemId := Some ''zzz999''\<rparr>, [], None)
   \<and> itemId (fst (onAVStarted example_collaborators example_host
        (run example_collaborators
           [(example_host, EvAddProvider (Some example_provider)),
            (example_host, EvPlayBackStarted)]
           (Player_init None)))) = Some ''abc123''"
proof -
  let ?evs = "[(example_host, EvAddProvider (Some example_provider)),
        (example_host, EvPlayBackStarted),
        (example_host, EvAVStarted)]"
  let ?evs2 = "[(example_host, EvAddProvider (Some example_provider)),
               (example_host, EvPlayBackStarted),
               (example_host, EvAVStarted),
               (example_host_no_id, EvAVStarted)]"
  let ?reg = "[(example_host, EvAddProvider (Some example_provider)),
            (example_host, EvPlayBackStarted)]"
  let ?q = "run example_collaborators ?reg (Player_init None)"
  let ?tag = "[(''emby'', ''zzz999'')]"
  have r: "run example_collaborators ?evs (Player_init None) = example_playing example_provider"
    by (simp only: example_playing_def)
  have i: "item (example_playing example_provider) \<noteq> None"
    by (simp add: example_playing_accepted)
  have i2: "item (run example_collaborators ?evs2 (Player_init None)) = Some example_item"
    "itemId (run example_collaborators ?evs2 (Player_init None)) = Some []"
    by (simp_all only: example_replayed_eq) simp_all
  have u: "getUniqueID ?tag (EMBY_PROTOCOL example_collaborators) = ''zzz999''"
    by (simp add: getUniqueID_def example_collaborators_def)
  have q: "item ?q = None \<and> mediaProvider ?q = None \<and> playSessionId ?q = None
        \<and> file' ?q \<noteq> None \<and> file' ?q \<noteq> Some [] \<and> host_isPlayingVideo example_host_unknown_video
        \<and> host_videoInfoTag example_host_unknown_video = Some ?tag
        \<and> getUniqueID ?tag (EMBY_PROTOCOL example_collaborators) \<noteq> []
        \<and> (\<forall>mp \<in> set (map snd (providers ?q)).
              matchingItems (EMBY_PROTOCOL example_collaborators) example_host_unknown_video
                (?q\<lparr>itemId := Some (getUniqueID ?tag (EMBY_PROTOCOL example_collaborators))\<rparr>)
                mp = [])"
    unfolding u
    by (simp only: example_registered_eq)
       (simp add: matchingItems_def getUniqueID_def example_host_unknown_video_def
         example_host_def example_provider_def example_item_def example_collaborators_def)
  have a: "fst (onAVStarted example_collaborators example_host ?q) = example_playing example_provider"
    by (simp add: example_playing_def)
  have n: "item ?q = None \<and> item (fst (onAVStarted example_collaborators example_host ?q)) \<noteq> None"
    unfolding a using i by (simp only: example_registered_eq) simp
  from session_group_invariant [of example_collaborators ?evs None] i
  have w1: "sessionGroup (example_playing example_provider)
     \<and> itemId (example_playing example_provider) \<noteq> None"
    unfolding r by blast
  from session_group_invariant
         [of example_collaborators ?evs2 None ?q example_host_unknown_video ?tag] q
  have w2: "onAVStarted example_collaborators example_host_unknown_video ?q
        = (?q\<lparr>itemId := Some ''zzz999''\<rparr>, [], None)"
    unfolding u by blast
  from session_group_invariant [where c = example_collaborators and p = ?q and h = example_host] n
  have w3: "\<exists>i. i \<noteq> [] \<and> itemId (fst (onAVStarted example_collaborators example_host ?q)) = Some i"
    by blast
  have w4: "itemId (fst (onAVStarted example_collaborators example_host ?q)) = Some ''abc123''"
    unfolding a by (simp add: example_playing_accepted)
  from i i2 w1 w2 w3 w4 show ?thesis
    by blast
qed

text \<open>
  Playback starts with no provider registered: after \<^verbatim>\<open>onAVStarted\<close> the item id is
  set while the item, the provider and the session id are not.
\<close>

theorem unmatched_itemId_counterexample:
  "run example_collaborators [(example_host, EvPlayBackStarted), (example_host, EvAVStarted)]
     (Player_init None)
   = \<lparr>progressInterval = 10, lastProgressReport = None, providers = [],
      file' = Some ''http://host:8096/emby/Videos/abc123/stream.mkv?static=true'',
      item = None, itemId = Some ''abc123'', mediaProvider = None,
      playSessionId = None, paused = False\<rparr>
   \<and> \<not> (itemId (run example_collaborators
                   [(example_host, EvPlayBackStarted), (example_host, EvAVStarted)]
                   (Player_init None)) = None)"
  by (simp add: player_defs example_collaborators_def example_host_def Let_def)

end
